theory Spec2Isabelle
  imports Main
begin

section \<open>Python values and the operations the server applies to them\<close>

text \<open>
  The server works on the objects that \<^verbatim>\<open>response.json()\<close> returns: \<^verbatim>\<open>None\<close>, booleans,
  integers, strings, lists and dictionaries with string keys. A dictionary is an association
  list read with \<open>map_of\<close>. JSON numbers are integers here; floating-point numbers are outside
  the model.
\<close>

datatype json =
    JNull
  | JBool bool
  | JInt int
  | JStr string
  | JList "json list"
  | JDict "(string \<times> json) list"

text \<open>The exceptions that the modelled code can raise, by class.\<close>

datatype py_error =
    AttributeError
  | KeyError
  | TypeError
  | IndexError
  | ValueError
  | HTTPStatusError
  | TransportError
  | JSONDecodeError

text \<open>Sequencing of computations that may raise: the first exception ends the computation.\<close>

definition and_then :: "py_error + 'a \<Rightarrow> ('a \<Rightarrow> py_error + 'b) \<Rightarrow> py_error + 'b" where
  "and_then m f = (case m of Inl e \<Rightarrow> Inl e | Inr x \<Rightarrow> f x)"

text \<open>Truth value of an object, as \<^verbatim>\<open>if x\<close> and \<^verbatim>\<open>not x\<close> test it.\<close>

fun truthy :: "json \<Rightarrow> bool" where
  "truthy JNull = False"
| "truthy (JBool b) = b"
| "truthy (JInt n) = (n \<noteq> 0)"
| "truthy (JStr s) = (s \<noteq> [])"
| "truthy (JList xs) = (xs \<noteq> [])"
| "truthy (JDict kvs) = (kvs \<noteq> [])"

text \<open>\<^verbatim>\<open>x.get(key, default)\<close>: only a dictionary has the method.\<close>

fun py_get :: "json \<Rightarrow> string \<Rightarrow> json \<Rightarrow> py_error + json" where
  "py_get (JDict kvs) k dflt = Inr (case map_of kvs k of None \<Rightarrow> dflt | Some v \<Rightarrow> v)"
| "py_get _ k dflt = Inl AttributeError"

text \<open>\<^verbatim>\<open>x[key]\<close> with a string key.\<close>

fun py_getitem :: "json \<Rightarrow> string \<Rightarrow> py_error + json" where
  "py_getitem (JDict kvs) k = (case map_of kvs k of None \<Rightarrow> Inl KeyError | Some v \<Rightarrow> Inr v)"
| "py_getitem _ k = Inl TypeError"

text \<open>\<^verbatim>\<open>x[0]\<close>: the first element of a list, the first character of a string.\<close>

fun py_first :: "json \<Rightarrow> py_error + json" where
  "py_first (JList []) = Inl IndexError"
| "py_first (JList (x # xs)) = Inr x"
| "py_first (JStr []) = Inl IndexError"
| "py_first (JStr (c # cs)) = Inr (JStr [c])"
| "py_first (JDict kvs) = Inl KeyError"
| "py_first _ = Inl TypeError"

text \<open>
  The elements a \<^verbatim>\<open>for\<close> loop visits: the elements of a list, the characters of a string,
  the keys of a dictionary; anything else is not iterable.
\<close>

fun py_iter :: "json \<Rightarrow> py_error + json list" where
  "py_iter (JList xs) = Inr xs"
| "py_iter (JStr s) = Inr (map (\<lambda>c. JStr [c]) s)"
| "py_iter (JDict kvs) = Inr (map (\<lambda>kv. JStr (fst kv)) kvs)"
| "py_iter _ = Inl TypeError"

text \<open>\<^verbatim>\<open>sep.join(parts)\<close>: every part has to be a string.\<close>

fun py_join :: "string \<Rightarrow> json list \<Rightarrow> py_error + string" where
  "py_join sep [] = Inr []"
| "py_join sep [JStr s] = Inr s"
| "py_join sep (JStr s # x # xs) = and_then (py_join sep (x # xs)) (\<lambda>r. Inr (s @ sep @ r))"
| "py_join sep _ = Inl TypeError"

text \<open>\<^verbatim>\<open>x + 1\<close>: defined on integers and booleans.\<close>

fun py_add1 :: "json \<Rightarrow> py_error + json" where
  "py_add1 (JInt n) = Inr (JInt (n + 1))"
| "py_add1 (JBool b) = Inr (JInt (if b then 2 else 1))"
| "py_add1 _ = Inl TypeError"

section \<open>Data extraction utilities\<close>

subsection \<open>\<^verbatim>\<open>extract_description_from_jira\<close>\<close>

text \<open>The body of the inner loop: one node of a paragraph.\<close>

definition text_item_step :: "json \<Rightarrow> json list \<Rightarrow> py_error + json list" where
  "text_item_step text_item text_parts =
     and_then (py_get text_item ''type'' JNull) (\<lambda>ty.
       if ty = JStr ''text'' then
         and_then (py_get text_item ''text'' (JStr [])) (\<lambda>text.
           Inr (if truthy text then text_parts @ [text] else text_parts))
       else Inr text_parts)"

fun paragraph_loop :: "json list \<Rightarrow> json list \<Rightarrow> py_error + json list" where
  "paragraph_loop [] text_parts = Inr text_parts"
| "paragraph_loop (text_item # rest) text_parts =
     and_then (text_item_step text_item text_parts) (paragraph_loop rest)"

text \<open>The body of the outer loop: one block of the document.\<close>

definition item_step :: "json \<Rightarrow> json list \<Rightarrow> py_error + json list" where
  "item_step item text_parts =
     and_then (py_get item ''type'' JNull) (\<lambda>ty.
       if ty = JStr ''paragraph'' then
         and_then (py_get item ''content'' (JList [])) (\<lambda>paragraph_content.
           and_then (py_iter paragraph_content) (\<lambda>text_items.
             paragraph_loop text_items text_parts))
       else Inr text_parts)"

fun content_loop :: "json list \<Rightarrow> json list \<Rightarrow> py_error + json list" where
  "content_loop [] text_parts = Inr text_parts"
| "content_loop (item # rest) text_parts =
     and_then (item_step item text_parts) (content_loop rest)"

text \<open>The collected \<^verbatim>\<open>text_parts\<close> at the end of the traversal of \<^verbatim>\<open>content\<close>.\<close>

definition collect_text_parts :: "json \<Rightarrow> py_error + json list" where
  "collect_text_parts content = and_then (py_iter content) (\<lambda>items. content_loop items [])"

text \<open>The statements inside \<^verbatim>\<open>try\<close>.\<close>

definition extract_description_try :: "json \<Rightarrow> py_error + string" where
  "extract_description_try description_field =
     and_then (py_get description_field ''content'' (JList [])) (\<lambda>content.
       if \<not> truthy content then Inr ''No description available''
       else and_then (collect_text_parts content) (\<lambda>text_parts.
         if text_parts \<noteq> [] then py_join '' '' text_parts
         else Inr ''No description available''))"

text \<open>
  The whole function: the \<^verbatim>\<open>except\<close> clause handles \<^verbatim>\<open>AttributeError\<close>, \<^verbatim>\<open>KeyError\<close> and
  \<^verbatim>\<open>TypeError\<close>; any other exception would leave the function.
\<close>

definition extract_description_from_jira :: "json \<Rightarrow> py_error + string" where
  "extract_description_from_jira description_field =
     (if \<not> truthy description_field then Inr ''No description available''
      else case extract_description_try description_field of
             Inr s \<Rightarrow> Inr s
           | Inl e \<Rightarrow>
               if e = AttributeError \<or> e = KeyError \<or> e = TypeError
               then Inr ''No description available''
               else Inl e)"


section \<open>Requests, the remote services and the environment\<close>

text \<open>
  A request as \<^verbatim>\<open>httpx\<close> sends it: \<open>req_json\<close> is the \<^verbatim>\<open>json=\<close> argument, \<open>req_params\<close> the
  \<^verbatim>\<open>params=\<close> argument. The fixed timeout is not part of the model.
\<close>

datatype http_verb = GET | POST | PUT

record request =
  req_method :: http_verb
  req_url :: string
  req_headers :: "(string \<times> string) list"
  req_json :: "json option"
  req_params :: "json option"

text \<open>
  What one exchange gives: \<open>SendFailed\<close> when sending raises (connection error, timeout),
  \<open>StatusError\<close> when \<^verbatim>\<open>raise_for_status()\<close> raises, \<open>BadBody\<close> when \<^verbatim>\<open>response.json()\<close>
  raises, \<open>Json v\<close> when the body parses to \<open>v\<close>.
\<close>

datatype http_outcome = SendFailed | StatusError | BadBody | Json json

text \<open>
  Everything the module takes from outside: the three credentials (the module uses the names
  without defining them; they are configuration), the two remote services as a function of the
  requests sent so far and the present request, and three texts that the interpreter produces:
  the \<^verbatim>\<open>repr\<close> of a list or dictionary, the message of an exception, and the upper-case
  form of a string that has characters outside ASCII.
\<close>

record env =
  JIRA_EMAIL :: string
  JIRA_API_TOKEN :: string
  CONFLUENCE_API_TOKEN :: string
  http_send :: "request list \<Rightarrow> request \<Rightarrow> http_outcome"
  container_repr :: "json \<Rightarrow> string"
  exc_str :: "py_error \<Rightarrow> string"
  unicode_upper :: "string \<Rightarrow> string"

text \<open>
  An operation that performs requests takes the list of requests sent so far and returns it
  extended, next to its result. What the server prints for debugging is not part of the model.
\<close>

type_synonym trace = "request list"

definition io_bind ::
  "(py_error + 'a) \<times> trace \<Rightarrow> ('a \<Rightarrow> trace \<Rightarrow> (py_error + 'b) \<times> trace) \<Rightarrow> (py_error + 'b) \<times> trace" where
  "io_bind r f = (case r of (Inl e, tr) \<Rightarrow> (Inl e, tr) | (Inr x, tr) \<Rightarrow> f x tr)"

text \<open>\<^verbatim>\<open>try: ... except Exception as e: return h(e)\<close>\<close>

definition try_except ::
  "(py_error + 'a) \<times> trace \<Rightarrow> (py_error \<Rightarrow> 'a) \<Rightarrow> (py_error + 'a) \<times> trace" where
  "try_except r h = (case r of (Inl e, tr) \<Rightarrow> (Inr (h e), tr) | (Inr x, tr) \<Rightarrow> (Inr x, tr))"

subsection \<open>\<^verbatim>\<open>str()\<close> and \<^verbatim>\<open>upper()\<close>\<close>

function nat_digits :: "nat \<Rightarrow> string" where
  "nat_digits n =
     (if n < 10 then [char_of (48 + n)] else nat_digits (n div 10) @ [char_of (48 + n mod 10)])"
  by pat_completeness auto
termination
  by (relation "measure id") auto

declare nat_digits.simps [simp del]

definition int_str :: "int \<Rightarrow> string" where
  "int_str n = (if n < 0 then ''-'' @ nat_digits (nat (- n)) else nat_digits (nat n))"

text \<open>\<^verbatim>\<open>str(x)\<close>, also what an f-string puts in place of \<^verbatim>\<open>{x}\<close>.\<close>

fun py_str :: "env \<Rightarrow> json \<Rightarrow> string" where
  "py_str E JNull = ''None''"
| "py_str E (JBool b) = (if b then ''True'' else ''False'')"
| "py_str E (JInt n) = int_str n"
| "py_str E (JStr s) = s"
| "py_str E (JList xs) = container_repr E (JList xs)"
| "py_str E (JDict kvs) = container_repr E (JDict kvs)"

text \<open>
  \<^verbatim>\<open>s.upper()\<close>. On a string of ASCII characters the letters \<open>a\<close> to \<open>z\<close> are mapped and
  every other character is left as it is. On a string with a character outside ASCII the
  result follows the Unicode tables of the interpreter, which map some of these characters to
  ASCII letters; it is taken from the environment.
\<close>

definition upper_char :: "char \<Rightarrow> char" where
  "upper_char c =
     (let n = (of_char c :: nat) in if 97 \<le> n \<and> n \<le> 122 then char_of (n - 32) else c)"

definition is_ascii :: "char \<Rightarrow> bool" where
  "is_ascii c = ((of_char c :: nat) < 128)"

definition upper :: "env \<Rightarrow> string \<Rightarrow> string" where
  "upper E s = (if list_all is_ascii s then map upper_char s else unicode_upper E s)"

subsection \<open>\<^verbatim>\<open>extract_jira_field_value\<close>\<close>

text \<open>
  The function returns the stored value as it is, whatever its type, when the object is a
  dictionary.
\<close>

definition extract_jira_field_value :: "env \<Rightarrow> json \<Rightarrow> string \<Rightarrow> json" where
  "extract_jira_field_value E field_data field_name =
     (if \<not> truthy field_data then JStr ''Unknown''
      else case field_data of
             JDict kvs \<Rightarrow> (case map_of kvs field_name of None \<Rightarrow> JStr ''Unknown'' | Some v \<Rightarrow> v)
           | _ \<Rightarrow> if truthy field_data then JStr (py_str E field_data) else JStr ''Unknown'')"

section \<open>Authentication and HTTP request utilities\<close>

definition JIRA_BASE_URL :: string where
  "JIRA_BASE_URL = ''https://onedatascan.atlassian.net''"

definition CONFLUENCE_BASE_URL :: string where
  "CONFLUENCE_BASE_URL = ''https://onedatascan.atlassian.net/wiki''"

definition DEFAULT_HEADERS :: "(string \<times> string) list" where
  "DEFAULT_HEADERS = [(''Accept'', ''application/json''), (''Content-Type'', ''application/json'')]"

definition b64_alphabet :: string where
  "b64_alphabet = ''ABCDEFGHIJKLMNOPQRSTUVWXYZabcdefghijklmnopqrstuvwxyz0123456789+/''"

definition b64_char :: "nat \<Rightarrow> char" where
  "b64_char i = b64_alphabet ! (i mod 64)"

fun b64_groups :: "nat list \<Rightarrow> string" where
  "b64_groups [] = []"
| "b64_groups [a] = [b64_char (a div 4), b64_char ((a mod 4) * 16), CHR ''='', CHR ''='']"
| "b64_groups [a, b] =
     [b64_char (a div 4), b64_char ((a mod 4) * 16 + b div 16), b64_char ((b mod 16) * 4), CHR ''='']"
| "b64_groups (a # b # c # rest) =
     [b64_char (a div 4), b64_char ((a mod 4) * 16 + b div 16),
      b64_char ((b mod 16) * 4 + c div 64), b64_char (c mod 64)] @ b64_groups rest"

definition b64encode :: "string \<Rightarrow> string" where
  "b64encode s = b64_groups (map of_char s)"

definition create_auth_headers :: "string \<Rightarrow> string \<Rightarrow> (string \<times> string) list" where
  "create_auth_headers token email =
     (let auth_string = email @ '':'' @ token;
          b64_auth = b64encode auth_string
      in DEFAULT_HEADERS @ [(''Authorization'', ''Basic '' @ b64_auth)])"

text \<open>
  One exchange: the request is sent, \<^verbatim>\<open>raise_for_status()\<close> is called on the response and the
  body is parsed. The request is recorded whatever the outcome.
\<close>

definition http_exchange :: "env \<Rightarrow> request \<Rightarrow> trace \<Rightarrow> (py_error + json) \<times> trace" where
  "http_exchange E rq tr =
     (case http_send E tr rq of
        SendFailed \<Rightarrow> Inl TransportError
      | StatusError \<Rightarrow> Inl HTTPStatusError
      | BadBody \<Rightarrow> Inl JSONDecodeError
      | Json v \<Rightarrow> Inr v,
      tr @ [rq])"

text \<open>
  Both request functions have the same two \<^verbatim>\<open>except\<close> clauses, tried in this order:
  \<^verbatim>\<open>except httpx.HTTPStatusError\<close> and \<^verbatim>\<open>except Exception\<close>. Each returns \<^verbatim>\<open>None\<close>.
\<close>

datatype handler = StatusHandler | GenericHandler

fun except_clause :: "py_error \<Rightarrow> handler" where
  "except_clause HTTPStatusError = StatusHandler"
| "except_clause _ = GenericHandler"

fun handler_result :: "handler \<Rightarrow> json" where
  "handler_result StatusHandler = JNull"
| "handler_result GenericHandler = JNull"

definition request_handlers :: "(py_error + json) \<times> trace \<Rightarrow> json \<times> trace" where
  "request_handlers r =
     (case r of (Inr v, tr) \<Rightarrow> (v, tr) | (Inl e, tr) \<Rightarrow> (handler_result (except_clause e), tr))"

definition jira_request :: "env \<Rightarrow> string \<Rightarrow> request" where
  "jira_request E endpoint =
     \<lparr>req_method = GET, req_url = JIRA_BASE_URL @ endpoint,
      req_headers = create_auth_headers (JIRA_API_TOKEN E) (JIRA_EMAIL E),
      req_json = None, req_params = None\<rparr>"

definition make_jira_request :: "env \<Rightarrow> string \<Rightarrow> trace \<Rightarrow> json \<times> trace" where
  "make_jira_request E endpoint tr = request_handlers (http_exchange E (jira_request E endpoint) tr)"

definition confluence_request :: "env \<Rightarrow> http_verb \<Rightarrow> string \<Rightarrow> json \<Rightarrow> request" where
  "confluence_request E m endpoint payload =
     \<lparr>req_method = m, req_url = CONFLUENCE_BASE_URL @ endpoint,
      req_headers = create_auth_headers (CONFLUENCE_API_TOKEN E) (JIRA_EMAIL E),
      req_json = (if m = GET then None else Some payload),
      req_params = (if m = GET then Some payload else None)\<rparr>"

text \<open>The statements inside \<^verbatim>\<open>try\<close> of \<^verbatim>\<open>make_confluence_request\<close>.\<close>

definition make_confluence_request_try ::
  "env \<Rightarrow> string \<Rightarrow> json \<Rightarrow> string \<Rightarrow> trace \<Rightarrow> (py_error + json) \<times> trace" where
  "make_confluence_request_try E endpoint payload method tr =
     (if upper E method = ''POST'' then http_exchange E (confluence_request E POST endpoint payload) tr
      else if upper E method = ''PUT'' then http_exchange E (confluence_request E PUT endpoint payload) tr
      else if upper E method = ''GET'' then http_exchange E (confluence_request E GET endpoint payload) tr
      else (Inl ValueError, tr))"

definition make_confluence_request ::
  "env \<Rightarrow> string \<Rightarrow> json \<Rightarrow> string \<Rightarrow> trace \<Rightarrow> json \<times> trace" where
  "make_confluence_request E endpoint payload method tr =
     request_handlers (make_confluence_request_try E endpoint payload method tr)"


section \<open>Jira data processing\<close>

text \<open>
  The dictionaries that the server builds itself (\<^verbatim>\<open>Dict[str, Any]\<close>) are association lists;
  \<^verbatim>\<open>None\<close> in place of such a dictionary is \<open>None\<close>.
\<close>

type_synonym pydict = "(string \<times> json) list"

definition dict_getitem :: "pydict \<Rightarrow> string \<Rightarrow> py_error + json" where
  "dict_getitem d k = (case map_of d k of None \<Rightarrow> Inl KeyError | Some v \<Rightarrow> Inr v)"

definition dict_get :: "pydict \<Rightarrow> string \<Rightarrow> json \<Rightarrow> json" where
  "dict_get d k dflt = (case map_of d k of None \<Rightarrow> dflt | Some v \<Rightarrow> v)"

text \<open>The dictionary display of \<^verbatim>\<open>fetch_jira_issue_details\<close>, entry by entry.\<close>

definition issue_record :: "env \<Rightarrow> string \<Rightarrow> json \<Rightarrow> py_error + pydict" where
  "issue_record E issue_key flds =
     and_then (py_get flds ''summary'' (JStr ''No summary'')) (\<lambda>summary.
     and_then (py_get flds ''status'' JNull) (\<lambda>status.
     and_then (py_get flds ''reporter'' JNull) (\<lambda>reporter.
     and_then (py_get flds ''assignee'' JNull) (\<lambda>assignee.
     and_then (py_get flds ''priority'' JNull) (\<lambda>priority.
     and_then (py_get flds ''issuetype'' JNull) (\<lambda>issuetype.
     and_then (py_get flds ''description'' JNull) (\<lambda>description.
     and_then (extract_description_from_jira description) (\<lambda>description_text.
     and_then (py_get flds ''subtasks'' (JList [])) (\<lambda>subtasks.
       Inr [(''key'', JStr issue_key),
            (''summary'', summary),
            (''status'', extract_jira_field_value E status ''name''),
            (''reporter'', extract_jira_field_value E reporter ''displayName''),
            (''assignee'', extract_jira_field_value E assignee ''displayName''),
            (''priority'', extract_jira_field_value E priority ''name''),
            (''issue_type'', extract_jira_field_value E issuetype ''name''),
            (''description'', JStr description_text),
            (''subtasks'', subtasks)])))))))))"

definition fetch_jira_issue_details ::
  "env \<Rightarrow> string \<Rightarrow> trace \<Rightarrow> (py_error + pydict option) \<times> trace" where
  "fetch_jira_issue_details E issue_key tr =
     (case make_jira_request E (''/rest/api/3/issue/'' @ issue_key) tr of
        (data, tr') \<Rightarrow>
          if \<not> truthy data then (Inr None, tr')
          else (and_then (py_get data ''fields'' (JDict [])) (\<lambda>flds.
                  and_then (issue_record E issue_key flds) (\<lambda>r. Inr (Some r))), tr'))"

text \<open>The dictionary display at the end of \<^verbatim>\<open>fetch_subtask_details\<close>.\<close>

definition subtask_record :: "env \<Rightarrow> json \<Rightarrow> json \<Rightarrow> py_error + pydict" where
  "subtask_record E sub_key sub_fields =
     and_then (py_get sub_fields ''summary'' (JStr ''No summary'')) (\<lambda>summary.
     and_then (py_get sub_fields ''status'' JNull) (\<lambda>status.
     and_then (py_get sub_fields ''reporter'' JNull) (\<lambda>reporter.
     and_then (py_get sub_fields ''description'' JNull) (\<lambda>description.
     and_then (extract_description_from_jira description) (\<lambda>description_text.
       Inr [(''key'', sub_key),
            (''summary'', summary),
            (''status'', extract_jira_field_value E status ''name''),
            (''reporter'', extract_jira_field_value E reporter ''displayName''),
            (''description'', JStr description_text)])))))"

definition fetch_subtask_details ::
  "env \<Rightarrow> json \<Rightarrow> trace \<Rightarrow> (py_error + pydict) \<times> trace" where
  "fetch_subtask_details E subtask_data tr =
     (case py_get subtask_data ''key'' JNull of
        Inl e \<Rightarrow> (Inl e, tr)
      | Inr sub_key \<Rightarrow>
          if \<not> truthy sub_key then (Inr [(''error'', JStr ''No subtask key found'')], tr)
          else
            (case make_jira_request E (''/rest/api/3/issue/'' @ py_str E sub_key) tr of
               (sub_data, tr') \<Rightarrow>
                 if \<not> truthy sub_data
                 then (Inr [(''key'', sub_key), (''error'', JStr ''Unable to fetch subtask details'')], tr')
                 else (and_then (py_get sub_data ''fields'' (JDict [])) (subtask_record E sub_key), tr')))"

definition nl :: string where
  "nl = [CHR 0x0A]"

text \<open>What the loop of \<^verbatim>\<open>format_jira_issue_output\<close> appends for one subtask.\<close>

definition subtask_section :: "env \<Rightarrow> pydict \<Rightarrow> py_error + string" where
  "subtask_section E subtask =
     (if map_of subtask ''error'' \<noteq> None then
        and_then (dict_getitem subtask ''error'') (\<lambda>err.
          Inr (nl @ ''  - '' @ py_str E (dict_get subtask ''key'' (JStr ''Unknown'')) @ '': ''
               @ py_str E err @ nl))
      else
        and_then (dict_getitem subtask ''key'') (\<lambda>k.
        and_then (dict_getitem subtask ''summary'') (\<lambda>summary.
        and_then (dict_getitem subtask ''status'') (\<lambda>status.
        and_then (dict_getitem subtask ''reporter'') (\<lambda>reporter.
        and_then (dict_getitem subtask ''description'') (\<lambda>description.
          Inr (nl @ ''  - '' @ py_str E k @ '': '' @ py_str E summary @ nl
               @ ''    Status: '' @ py_str E status @ nl
               @ ''    Reporter: '' @ py_str E reporter @ nl
               @ ''    Description: '' @ py_str E description @ nl)))))))"

fun subtask_sections :: "env \<Rightarrow> pydict list \<Rightarrow> string \<Rightarrow> py_error + string" where
  "subtask_sections E [] result = Inr result"
| "subtask_sections E (subtask # rest) result =
     and_then (subtask_section E subtask) (\<lambda>s. subtask_sections E rest (result @ s))"

text \<open>The first f-string of \<^verbatim>\<open>format_jira_issue_output\<close>.\<close>

definition issue_header :: "env \<Rightarrow> pydict \<Rightarrow> py_error + string" where
  "issue_header E issue_details =
     and_then (dict_getitem issue_details ''key'') (\<lambda>k.
     and_then (dict_getitem issue_details ''summary'') (\<lambda>summary.
     and_then (dict_getitem issue_details ''status'') (\<lambda>status.
     and_then (dict_getitem issue_details ''reporter'') (\<lambda>reporter.
     and_then (dict_getitem issue_details ''description'') (\<lambda>description.
       Inr (nl @ ''Jira Ticket: '' @ py_str E k @ nl
            @ ''Summary: '' @ py_str E summary @ nl
            @ ''Status: '' @ py_str E status @ nl
            @ ''Reporter: '' @ py_str E reporter @ nl
            @ ''Description: '' @ py_str E description @ nl))))))"

definition format_jira_issue_output :: "env \<Rightarrow> pydict \<Rightarrow> pydict list \<Rightarrow> py_error + string" where
  "format_jira_issue_output E issue_details subtask_details =
     and_then (issue_header E issue_details) (\<lambda>result.
       if subtask_details \<noteq> [] then
         subtask_sections E subtask_details (result @ nl @ ''Child Stories/Subtasks:'' @ nl)
       else Inr (result @ nl @ ''No child stories or subtasks found.'' @ nl))"

section \<open>Confluence page management\<close>

definition find_existing_confluence_page ::
  "env \<Rightarrow> string \<Rightarrow> string \<Rightarrow> trace \<Rightarrow> (py_error + json) \<times> trace" where
  "find_existing_confluence_page E space_key title tr =
     (let search_params =
            JDict [(''title'', JStr title), (''spaceKey'', JStr space_key), (''expand'', JStr ''version'')]
      in case make_confluence_request E ''/rest/api/content'' search_params ''GET'' tr of
           (search_data, tr') \<Rightarrow>
             (if \<not> truthy search_data then Inr JNull
              else and_then (py_get search_data ''results'' JNull) (\<lambda>results.
                     if truthy results
                     then and_then (py_getitem search_data ''results'') py_first
                     else Inr JNull),
              tr'))"

definition page_data :: "string \<Rightarrow> string \<Rightarrow> string \<Rightarrow> json" where
  "page_data space_key title content =
     JDict [(''type'', JStr ''page''),
            (''title'', JStr title),
            (''space'', JDict [(''key'', JStr space_key)]),
            (''body'', JDict [(''storage'',
               JDict [(''value'', JStr content), (''representation'', JStr ''storage'')])])]"

definition create_new_confluence_page ::
  "env \<Rightarrow> string \<Rightarrow> string \<Rightarrow> string \<Rightarrow> trace \<Rightarrow> json \<times> trace" where
  "create_new_confluence_page E space_key title content tr =
     make_confluence_request E ''/rest/api/content/'' (page_data space_key title content) ''POST'' tr"

definition update_data :: "json \<Rightarrow> string \<Rightarrow> string \<Rightarrow> string \<Rightarrow> json \<Rightarrow> json" where
  "update_data page_id space_key title content next_version =
     JDict [(''id'', page_id),
            (''type'', JStr ''page''),
            (''title'', JStr title),
            (''space'', JDict [(''key'', JStr space_key)]),
            (''body'', JDict [(''storage'',
               JDict [(''value'', JStr content), (''representation'', JStr ''storage'')])]),
            (''version'', JDict [(''number'', next_version)])]"

definition update_existing_confluence_page ::
  "env \<Rightarrow> json \<Rightarrow> string \<Rightarrow> string \<Rightarrow> string \<Rightarrow> json \<Rightarrow> trace \<Rightarrow> (py_error + json) \<times> trace" where
  "update_existing_confluence_page E page_id space_key title content current_version tr =
     (case py_add1 current_version of
        Inl e \<Rightarrow> (Inl e, tr)
      | Inr next_version \<Rightarrow>
          (case make_confluence_request E (''/rest/api/content/'' @ py_str E page_id)
                  (update_data page_id space_key title content next_version) ''PUT'' tr of
             (r, tr') \<Rightarrow> (Inr r, tr')))"

definition extract_page_url :: "env \<Rightarrow> json \<Rightarrow> py_error + string" where
  "extract_page_url E response_data =
     and_then (py_get response_data ''_links'' (JDict [])) (\<lambda>links.
     and_then (py_get links ''base'' (JStr [])) (\<lambda>base_url.
     and_then (py_get links ''webui'' (JStr [])) (\<lambda>web_ui.
       Inr (py_str E base_url @ py_str E web_ui))))"

section \<open>The three tools\<close>

fun subtask_loop :: "env \<Rightarrow> json list \<Rightarrow> pydict list \<Rightarrow> trace \<Rightarrow> (py_error + pydict list) \<times> trace" where
  "subtask_loop E [] subtask_details tr = (Inr subtask_details, tr)"
| "subtask_loop E (subtask_data # rest) subtask_details tr =
     io_bind (fetch_subtask_details E subtask_data tr) (\<lambda>subtask_info.
       subtask_loop E rest (subtask_details @ [subtask_info]))"

text \<open>\<^verbatim>\<open>get_jira_ticket\<close> has no \<^verbatim>\<open>try\<close> and no check of its argument.\<close>

definition get_jira_ticket :: "env \<Rightarrow> string \<Rightarrow> trace \<Rightarrow> (py_error + string) \<times> trace" where
  "get_jira_ticket E issue_key tr =
     io_bind (fetch_jira_issue_details E issue_key tr) (\<lambda>issue_details tr1.
       case issue_details of
         None \<Rightarrow> (Inr (''Unable to fetch Jira ticket '' @ issue_key @ ''.''), tr1)
       | Some d \<Rightarrow>
           if d = [] then (Inr (''Unable to fetch Jira ticket '' @ issue_key @ ''.''), tr1)
           else
             io_bind (py_iter (dict_get d ''subtasks'' (JList [])), tr1) (\<lambda>subtasks tr1.
               io_bind (subtask_loop E subtasks [] tr1) (\<lambda>subtask_details tr2.
                 (format_jira_issue_output E d subtask_details, tr2))))"

definition create_confluence_page ::
  "env \<Rightarrow> string \<Rightarrow> string \<Rightarrow> string \<Rightarrow> trace \<Rightarrow> (py_error + string) \<times> trace" where
  "create_confluence_page E space_key title body tr =
     try_except
       (if \<not> (space_key \<noteq> [] \<and> title \<noteq> [] \<and> body \<noteq> [])
        then (Inr ''Error: space_key, title, and body are all required'', tr)
        else
          (case create_new_confluence_page E space_key title body tr of
             (response_data, tr') \<Rightarrow>
               if truthy response_data
               then (and_then (extract_page_url E response_data) (\<lambda>page_url.
                       Inr (''Page created successfully: '' @ page_url)), tr')
               else (Inr ''Failed to create page: API request failed'', tr')))
       (\<lambda>e. ''Error creating page: '' @ exc_str E e)"

text \<open>The statements inside \<^verbatim>\<open>try\<close> of \<^verbatim>\<open>create_test_plan_from_jira\<close>.\<close>

definition create_test_plan_try ::
  "env \<Rightarrow> string \<Rightarrow> string \<Rightarrow> string \<Rightarrow> string \<Rightarrow> trace \<Rightarrow> (py_error + string) \<times> trace" where
  "create_test_plan_try E issue_key confluence_space_key confluence_title test_plan tr =
     (if \<not> (issue_key \<noteq> [] \<and> confluence_space_key \<noteq> [] \<and> confluence_title \<noteq> [] \<and> test_plan \<noteq> [])
      then (Inr ''Error: All parameters (issue_key, confluence_space_key, confluence_title, test_plan) are required'', tr)
      else
        io_bind (fetch_jira_issue_details E issue_key tr) (\<lambda>issue_details tr1.
          if issue_details = None \<or> issue_details = Some []
          then (Inr (''Unable to fetch Jira ticket '' @ issue_key @ '' for validation.''), tr1)
          else
            io_bind (find_existing_confluence_page E confluence_space_key confluence_title tr1)
              (\<lambda>existing_page tr2.
                 if truthy existing_page then
                   io_bind (py_getitem existing_page ''id'', tr2) (\<lambda>page_id tr2.
                   io_bind (and_then (py_getitem existing_page ''version'')
                              (\<lambda>v. py_getitem v ''number''), tr2) (\<lambda>current_version tr2.
                   io_bind (update_existing_confluence_page E page_id confluence_space_key
                              confluence_title test_plan current_version tr2) (\<lambda>response_data tr3.
                     if truthy response_data
                     then (and_then (extract_page_url E response_data) (\<lambda>page_url.
                             Inr (''Test plan page updated successfully: '' @ page_url)), tr3)
                     else (Inr ''Failed to update existing test plan page'', tr3))))
                 else
                   (case create_new_confluence_page E confluence_space_key confluence_title
                           test_plan tr2 of
                      (response_data, tr3) \<Rightarrow>
                        if truthy response_data
                        then (and_then (extract_page_url E response_data) (\<lambda>page_url.
                                Inr (''Test plan page created successfully: '' @ page_url)), tr3)
                        else (Inr ''Failed to create new test plan page'', tr3)))))"

definition create_test_plan_from_jira ::
  "env \<Rightarrow> string \<Rightarrow> string \<Rightarrow> string \<Rightarrow> string \<Rightarrow> trace \<Rightarrow> (py_error + string) \<times> trace" where
  "create_test_plan_from_jira E issue_key confluence_space_key confluence_title test_plan tr =
     try_except
       (create_test_plan_try E issue_key confluence_space_key confluence_title test_plan tr)
       (\<lambda>e. ''Error creating or updating test plan page: '' @ exc_str E e)"


section \<open>Rich-text documents\<close>

text \<open>
  A well-formed document as the tracker's schema describes it: a sequence of blocks, each a
  paragraph (a sequence of inline nodes) or a block of another type; an inline node is a text
  run or a node of another type. Every node may carry further attributes. A node of another
  type is given by its attributes as they are.
\<close>

datatype inline_node =
    TextRun string "(string \<times> json) list"
  | OtherInline "(string \<times> json) list"

datatype block_node =
    Paragraph "inline_node list" "(string \<times> json) list"
  | OtherBlock "(string \<times> json) list"

fun encode_inline :: "inline_node \<Rightarrow> json" where
  "encode_inline (TextRun s attrs) = JDict ((''type'', JStr ''text'') # (''text'', JStr s) # attrs)"
| "encode_inline (OtherInline attrs) = JDict attrs"

fun encode_block :: "block_node \<Rightarrow> json" where
  "encode_block (Paragraph inls attrs) =
     JDict ((''type'', JStr ''paragraph'') # (''content'', JList (map encode_inline inls)) # attrs)"
| "encode_block (OtherBlock attrs) = JDict attrs"

definition encode_document :: "block_node list \<Rightarrow> json" where
  "encode_document blocks =
     JDict [(''type'', JStr ''doc''), (''version'', JInt 1), (''content'', JList (map encode_block blocks))]"

text \<open>A node of another type has a type other than the recognised one, or none.\<close>

fun wf_inline :: "inline_node \<Rightarrow> bool" where
  "wf_inline (TextRun s attrs) = (s \<noteq> [])"
| "wf_inline (OtherInline attrs) = (map_of attrs ''type'' \<noteq> Some (JStr ''text''))"

fun wf_block :: "block_node \<Rightarrow> bool" where
  "wf_block (Paragraph inls attrs) = list_all wf_inline inls"
| "wf_block (OtherBlock attrs) = (map_of attrs ''type'' \<noteq> Some (JStr ''paragraph''))"

text \<open>
  The same without the demand that a text run is not empty: only the types of the other nodes
  are constrained.
\<close>

fun typed_inline :: "inline_node \<Rightarrow> bool" where
  "typed_inline (TextRun s attrs) = True"
| "typed_inline (OtherInline attrs) = (map_of attrs ''type'' \<noteq> Some (JStr ''text''))"

fun typed_block :: "block_node \<Rightarrow> bool" where
  "typed_block (Paragraph inls attrs) = list_all typed_inline inls"
| "typed_block (OtherBlock attrs) = (map_of attrs ''type'' \<noteq> Some (JStr ''paragraph''))"

text \<open>The text runs of a document in document order.\<close>

fun inline_runs :: "inline_node \<Rightarrow> string list" where
  "inline_runs (TextRun s attrs) = [s]"
| "inline_runs (OtherInline attrs) = []"

fun block_runs :: "block_node \<Rightarrow> string list" where
  "block_runs (Paragraph inls attrs) = concat (map inline_runs inls)"
| "block_runs (OtherBlock attrs) = []"

definition text_runs :: "block_node list \<Rightarrow> string list" where
  "text_runs blocks = concat (map block_runs blocks)"

text \<open>Strings joined by single spaces.\<close>

fun join_spaces :: "string list \<Rightarrow> string" where
  "join_spaces [] = []"
| "join_spaces [s] = s"
| "join_spaces (s # t # ts) = s @ '' '' @ join_spaces (t # ts)"

text \<open>
  The documents on which the statements inside \<^verbatim>\<open>try\<close> raise, by shape. An inline node makes
  them raise when it is not an object, or is a text node whose text is a true value other than
  a string. The content of a paragraph does when it cannot be iterated (\<^verbatim>\<open>None\<close>, a boolean, a
  number), when it is a string or an object that is not empty, and when it is a list with
  such an inline node. A block does when it is not an object or is a paragraph with such a
  content. A document does when it is not an object, when its content is a true value other
  than a list, and when its content is a list with such a block. A node that lacks a field, a
  node of another type with whatever it holds, an empty string or object as the content of a
  paragraph and a false text are not among them.
\<close>

fun is_str :: "json \<Rightarrow> bool" where
  "is_str (JStr s) = True"
| "is_str _ = False"

fun bad_inline :: "json \<Rightarrow> bool" where
  "bad_inline (JDict kvs) =
     (map_of kvs ''type'' = Some (JStr ''text'') \<and>
      (case map_of kvs ''text'' of None \<Rightarrow> False | Some v \<Rightarrow> truthy v \<and> \<not> is_str v))"
| "bad_inline _ = True"

fun bad_paragraph_content :: "json \<Rightarrow> bool" where
  "bad_paragraph_content (JList xs) = list_ex bad_inline xs"
| "bad_paragraph_content (JStr s) = (s \<noteq> [])"
| "bad_paragraph_content (JDict kvs) = (kvs \<noteq> [])"
| "bad_paragraph_content _ = True"

fun bad_block :: "json \<Rightarrow> bool" where
  "bad_block (JDict kvs) =
     (map_of kvs ''type'' = Some (JStr ''paragraph'') \<and>
      (case map_of kvs ''content'' of None \<Rightarrow> False | Some c \<Rightarrow> bad_paragraph_content c))"
| "bad_block _ = True"

fun bad_document :: "json \<Rightarrow> bool" where
  "bad_document (JDict kvs) =
     (case map_of kvs ''content'' of
        None \<Rightarrow> False
      | Some c \<Rightarrow>
          truthy c \<and> (case c of JList blocks \<Rightarrow> list_ex bad_block blocks | _ \<Rightarrow> True))"
| "bad_document _ = True"

section \<open>Notions used in the statements and proofs\<close>

text \<open>The two classes of exception that a wrong kind of value causes in the traversal.\<close>

definition shape_error :: "py_error \<Rightarrow> bool" where
  "shape_error e = (e = AttributeError \<or> e = TypeError)"

text \<open>A list of collected parts that holds something other than a string.\<close>

definition has_nonstr :: "json list \<Rightarrow> bool" where
  "has_nonstr xs = (\<not> list_all is_str xs)"

text \<open>The parts that the traversal collects from a list of text runs: the empty ones are left out.\<close>

definition nonempty_runs :: "string list \<Rightarrow> json list" where
  "nonempty_runs ss = map JStr (filter (\<lambda>s. s \<noteq> []) ss)"

definition is_dict :: "json \<Rightarrow> bool" where
  "is_dict v = (case v of JDict kvs \<Rightarrow> True | _ \<Rightarrow> False)"

text \<open>
  A concrete environment for running the model: fixed credentials, a given behaviour of the
  remote services, placeholder texts for containers and exceptions, and an upper-case form
  that leaves the characters outside ASCII as they are.
\<close>

definition test_env :: "(request list \<Rightarrow> request \<Rightarrow> http_outcome) \<Rightarrow> env" where
  "test_env srv =
     \<lparr>JIRA_EMAIL = ''qa@example.com'', JIRA_API_TOKEN = ''jira-token'',
      CONFLUENCE_API_TOKEN = ''wiki-token'', http_send = srv,
      container_repr = (\<lambda>v. ''<container>''), exc_str = (\<lambda>e. ''<exception>''),
      unicode_upper = map upper_char\<rparr>"

definition offline :: "request list \<Rightarrow> request \<Rightarrow> http_outcome" where
  "offline tr rq = SendFailed"

text \<open>
  The method \<open>post\<close> written with a long s (U+017F, two bytes in UTF-8) in place of the
  \<open>s\<close>, and an environment whose interpreter gives \<open>POST\<close> as its upper-case form.
\<close>

definition long_s_post :: string where
  "long_s_post = [CHR ''p'', CHR ''o'', CHR 0xC5, CHR 0xBF, CHR ''t'']"

definition env_long_s :: env where
  "env_long_s =
     (test_env offline)\<lparr>unicode_upper := (\<lambda>s. if s = long_s_post then ''POST'' else map upper_char s)\<rparr>"

text \<open>The value that either request function returns for an outcome of the exchange.\<close>

fun json_of :: "http_outcome \<Rightarrow> json" where
  "json_of (Json v) = v"
| "json_of _ = JNull"

text \<open>An exchange that gives no JSON: a failure of the transport.\<close>

fun failed :: "http_outcome \<Rightarrow> bool" where
  "failed (Json v) = False"
| "failed _ = True"

text \<open>The requests that the tools send.\<close>

definition issue_request :: "env \<Rightarrow> string \<Rightarrow> request" where
  "issue_request E issue_key = jira_request E (''/rest/api/3/issue/'' @ issue_key)"

definition search_request :: "env \<Rightarrow> string \<Rightarrow> string \<Rightarrow> request" where
  "search_request E space_key title =
     confluence_request E GET ''/rest/api/content''
       (JDict [(''title'', JStr title), (''spaceKey'', JStr space_key), (''expand'', JStr ''version'')])"

definition create_request :: "env \<Rightarrow> string \<Rightarrow> string \<Rightarrow> string \<Rightarrow> request" where
  "create_request E space_key title body =
     confluence_request E POST ''/rest/api/content/'' (page_data space_key title body)"

definition update_request :: "env \<Rightarrow> json \<Rightarrow> string \<Rightarrow> string \<Rightarrow> string \<Rightarrow> json \<Rightarrow> request" where
  "update_request E page_id space_key title body next_version =
     confluence_request E PUT (''/rest/api/content/'' @ py_str E page_id)
       (update_data page_id space_key title body next_version)"

text \<open>An issue as the tracker sends it: an object whose \<open>fields\<close>, when present, is an object.\<close>

fun usable_issue :: "json \<Rightarrow> bool" where
  "usable_issue (JDict kvs) =
     (kvs \<noteq> [] \<and> (case map_of kvs ''fields'' of None \<Rightarrow> True | Some v \<Rightarrow> is_dict v))"
| "usable_issue _ = False"

text \<open>A search result without a page: no \<open>results\<close>, or an empty one.\<close>

fun no_results :: "json \<Rightarrow> bool" where
  "no_results (JDict kvs) = (case map_of kvs ''results'' of None \<Rightarrow> True | Some r \<Rightarrow> \<not> truthy r)"
| "no_results v = (\<not> truthy v)"

text \<open>Remote services that answer the n-th request with the n-th outcome of a list.\<close>

definition scripted :: "http_outcome list \<Rightarrow> request list \<Rightarrow> request \<Rightarrow> http_outcome" where
  "scripted outs tr rq = (if length tr < length outs then outs ! length tr else SendFailed)"

text \<open>The description text of a field value, and the record built from an object of fields.\<close>

definition description_of :: "json \<Rightarrow> string" where
  "description_of v = (case extract_description_from_jira v of Inr s \<Rightarrow> s | Inl e \<Rightarrow> [])"

definition issue_dict :: "env \<Rightarrow> string \<Rightarrow> pydict \<Rightarrow> pydict" where
  "issue_dict E issue_key f =
     [(''key'', JStr issue_key),
      (''summary'', dict_get f ''summary'' (JStr ''No summary'')),
      (''status'', extract_jira_field_value E (dict_get f ''status'' JNull) ''name''),
      (''reporter'', extract_jira_field_value E (dict_get f ''reporter'' JNull) ''displayName''),
      (''assignee'', extract_jira_field_value E (dict_get f ''assignee'' JNull) ''displayName''),
      (''priority'', extract_jira_field_value E (dict_get f ''priority'' JNull) ''name''),
      (''issue_type'', extract_jira_field_value E (dict_get f ''issuetype'' JNull) ''name''),
      (''description'', JStr (description_of (dict_get f ''description'' JNull))),
      (''subtasks'', dict_get f ''subtasks'' (JList []))]"

text \<open>The page body that a creation or update payload carries: \<^verbatim>\<open>payload["body"]["storage"]["value"]\<close>.\<close>

definition page_body_value :: "json \<Rightarrow> py_error + json" where
  "page_body_value payload =
     and_then (py_getitem payload ''body'') (\<lambda>body.
     and_then (py_getitem body ''storage'') (\<lambda>storage. py_getitem storage ''value''))"

text \<open>The version that an update payload carries: \<^verbatim>\<open>payload["version"]["number"]\<close>.\<close>

definition page_version_number :: "json \<Rightarrow> py_error + json" where
  "page_version_number payload =
     and_then (py_getitem payload ''version'') (\<lambda>version. py_getitem version ''number'')"

text \<open>Sample data: an issue without subtasks, and the answer of the wiki to a successful write.\<close>

definition demo_issue :: json where
  "demo_issue =
     JDict [(''key'', JStr ''ABC-1''),
            (''fields'', JDict [(''summary'', JStr ''Login fails''),
                                (''status'', JDict [(''name'', JStr ''Open'')]),
                                (''reporter'', JDict [(''displayName'', JStr ''Ada'')]),
                                (''subtasks'', JList [])])]"

definition demo_page :: json where
  "demo_page =
     JDict [(''id'', JStr ''98765''),
            (''_links'', JDict [(''base'', JStr ''https://onedatascan.atlassian.net/wiki''),
                                (''webui'', JStr ''/spaces/SPACE/pages/98765'')])]"

definition demo_search_empty :: json where
  "demo_search_empty = JDict [(''results'', JList []), (''size'', JInt 0)]"

definition demo_search_found :: json where
  "demo_search_found =
     JDict [(''results'', JList [JDict [(''id'', JStr ''98765''),
                                        (''version'', JDict [(''number'', JInt 3)])]]),
            (''size'', JInt 1)]"

text \<open>
  Four behaviours of the remote services: nothing answers after the issue; the search finds
  nothing and the creation succeeds; the search finds a page at version 3 and the update
  succeeds; the issue cannot be fetched.
\<close>

definition env_wiki_down :: env where
  "env_wiki_down = test_env (scripted [Json demo_issue, SendFailed, StatusError])"

definition env_no_page :: env where
  "env_no_page = test_env (scripted [Json demo_issue, Json demo_search_empty, Json demo_page])"

definition env_page_exists :: env where
  "env_page_exists = test_env (scripted [Json demo_issue, Json demo_search_found, Json demo_page])"

definition env_no_issue :: env where
  "env_no_issue = test_env (scripted [StatusError, Json demo_search_empty, Json demo_page])"






text \<open>A tracker that answers with an issue whose \<open>fields\<close> is \<^verbatim>\<open>null\<close>.\<close>

definition env_null_fields :: env where
  "env_null_fields = test_env (scripted [Json (JDict [(''key'', JStr ''ABC-1''), (''fields'', JNull)])])"




text \<open>The requests after the fetch of the issue that one run of the test-plan tool can send.\<close>

definition plan_requests :: "env \<Rightarrow> string \<Rightarrow> string \<Rightarrow> string \<Rightarrow> request list \<Rightarrow> bool" where
  "plan_requests E s t b rest =
     (rest = [] \<or> rest = [search_request E s t] \<or>
      rest = [search_request E s t, create_request E s t b] \<or>
      (\<exists>pid v. rest = [search_request E s t, update_request E pid s t b v]))"

section \<open>Properties of the text extractor\<close>

subsection \<open>Exceptions of the traversal\<close>

lemma and_then_Inr [simp]: "and_then (Inr x) f = f x"
  by (simp add: and_then_def)

lemma and_then_Inl [simp]: "and_then (Inl e) f = Inl e"
  by (simp add: and_then_def)

lemma and_then_eq_Inr: "and_then m f = Inr y \<longleftrightarrow> (\<exists>x. m = Inr x \<and> f x = Inr y)"
  by (cases m) simp_all

lemma py_get_error: "py_get v k d = Inl e \<Longrightarrow> shape_error e"
  by (cases v) (simp_all add: shape_error_def)

lemma py_iter_error: "py_iter v = Inl e \<Longrightarrow> shape_error e"
  by (cases v) (simp_all add: shape_error_def)

lemma py_join_error: "py_join sep xs = Inl e \<Longrightarrow> shape_error e"
  by (induction sep xs rule: py_join.induct) (auto simp: shape_error_def and_then_def split: sum.splits)

lemma text_item_step_error: "text_item_step x acc = Inl e \<Longrightarrow> shape_error e"
  by (auto simp: text_item_step_def and_then_def split: sum.splits if_splits dest: py_get_error)

lemma paragraph_loop_error: "paragraph_loop xs acc = Inl e \<Longrightarrow> shape_error e"
  by (induction xs arbitrary: acc) (auto simp: and_then_def split: sum.splits dest: text_item_step_error)

lemma item_step_error: "item_step x acc = Inl e \<Longrightarrow> shape_error e"
  by (auto simp: item_step_def and_then_def split: sum.splits if_splits
      dest: py_get_error py_iter_error paragraph_loop_error)

lemma content_loop_error: "content_loop xs acc = Inl e \<Longrightarrow> shape_error e"
  by (induction xs arbitrary: acc) (auto simp: and_then_def split: sum.splits dest: item_step_error)

lemma extract_description_try_error: "extract_description_try d = Inl e \<Longrightarrow> shape_error e"
  by (auto simp: extract_description_try_def collect_text_parts_def and_then_def
      split: sum.splits if_splits
      dest: py_get_error py_iter_error content_loop_error py_join_error)

lemma extract_never_raises: "\<exists>s. extract_description_from_jira d = Inr s"
  by (auto simp: extract_description_from_jira_def shape_error_def split: sum.splits
      dest!: extract_description_try_error)

lemma extract_error_sentinel:
  "extract_description_try d = Inl e \<Longrightarrow> extract_description_from_jira d = Inr ''No description available''"
  by (auto simp: extract_description_from_jira_def shape_error_def split: sum.splits
      dest!: extract_description_try_error)

subsection \<open>Values of the wrong kind\<close>

lemma has_nonstr_append [simp]: "has_nonstr (xs @ ys) = (has_nonstr xs \<or> has_nonstr ys)"
  by (auto simp: has_nonstr_def)

lemma has_nonstr_Nil [simp]: "\<not> has_nonstr []"
  by (simp add: has_nonstr_def)

lemma py_join_nonstr: "has_nonstr xs \<Longrightarrow> py_join sep xs = Inl TypeError"
  by (induction sep xs rule: py_join.induct) (auto simp: has_nonstr_def)

lemma text_item_step_bad:
  "bad_inline x \<or> has_nonstr acc \<Longrightarrow> text_item_step x acc = Inr r \<Longrightarrow> has_nonstr r"
  by (cases x) (auto simp: text_item_step_def has_nonstr_def split: if_splits option.splits)

lemma paragraph_loop_bad:
  "list_ex bad_inline xs \<or> has_nonstr acc \<Longrightarrow> paragraph_loop xs acc = Inr r \<Longrightarrow> has_nonstr r"
proof (induction xs arbitrary: acc)
  case Nil
  then show ?case by simp
next
  case (Cons x xs)
  from Cons.prems(2) obtain acc' where
    step: "text_item_step x acc = Inr acc'" and rest: "paragraph_loop xs acc' = Inr r"
    by (auto simp: and_then_eq_Inr)
  show ?case
  proof (cases "bad_inline x \<or> has_nonstr acc")
    case True
    then have "has_nonstr acc'" using step by (rule text_item_step_bad)
    then show ?thesis using Cons.IH rest by blast
  next
    case False
    then have "list_ex bad_inline xs" using Cons.prems(1) by simp
    then show ?thesis using Cons.IH rest by blast
  qed
qed

lemma paragraph_content_bad:
  assumes "bad_paragraph_content c \<or> has_nonstr acc"
    and "and_then (py_iter c) (\<lambda>xs. paragraph_loop xs acc) = Inr r"
  shows "has_nonstr r"
proof (cases c)
  case (JList xs)
  then show ?thesis using assms paragraph_loop_bad [of xs acc r] by simp
next
  case (JStr s)
  show ?thesis
  proof (cases s)
    case Nil
    then show ?thesis using assms JStr by simp
  next
    case (Cons a as)
    then show ?thesis using assms JStr by (simp add: text_item_step_def)
  qed
next
  case (JDict kvs)
  show ?thesis
  proof (cases kvs)
    case Nil
    then show ?thesis using assms JDict by simp
  next
    case (Cons a as)
    then show ?thesis using assms JDict by (simp add: text_item_step_def)
  qed
qed (use assms in simp_all)

lemma item_step_bad:
  assumes "bad_block x \<or> has_nonstr acc" and "item_step x acc = Inr r"
  shows "has_nonstr r"
proof (cases x)
  case (JDict kvs)
  show ?thesis
  proof (cases "map_of kvs ''type'' = Some (JStr ''paragraph'')")
    case True
    let ?c = "case map_of kvs ''content'' of None \<Rightarrow> JList [] | Some v \<Rightarrow> v"
    have run: "and_then (py_iter ?c) (\<lambda>xs. paragraph_loop xs acc) = Inr r"
      using assms(2) JDict True by (simp add: item_step_def)
    have "bad_paragraph_content ?c \<or> has_nonstr acc"
      using assms(1) JDict True by (auto split: option.splits)
    then show ?thesis using run by (rule paragraph_content_bad)
  next
    case False
    then show ?thesis using assms JDict by (auto simp: item_step_def split: option.splits)
  qed
qed (use assms in \<open>simp_all add: item_step_def\<close>)

lemma content_loop_bad:
  "list_ex bad_block xs \<or> has_nonstr acc \<Longrightarrow> content_loop xs acc = Inr r \<Longrightarrow> has_nonstr r"
proof (induction xs arbitrary: acc)
  case Nil
  then show ?case by simp
next
  case (Cons x xs)
  from Cons.prems(2) obtain acc' where
    step: "item_step x acc = Inr acc'" and rest: "content_loop xs acc' = Inr r"
    by (auto simp: and_then_eq_Inr)
  show ?case
  proof (cases "bad_block x \<or> has_nonstr acc")
    case True
    then have "has_nonstr acc'" using step by (rule item_step_bad)
    then show ?thesis using Cons.IH rest by blast
  next
    case False
    then have "list_ex bad_block xs" using Cons.prems(1) by simp
    then show ?thesis using Cons.IH rest by blast
  qed
qed

lemma collect_text_parts_bad:
  assumes "truthy c" and "case c of JList blocks \<Rightarrow> list_ex bad_block blocks | _ \<Rightarrow> True"
    and "collect_text_parts c = Inr r"
  shows "has_nonstr r"
proof (cases c)
  case (JList xs)
  then show ?thesis using assms content_loop_bad [of xs "[]" r] by (simp add: collect_text_parts_def)
next
  case (JStr s)
  then show ?thesis using assms by (cases s) (simp_all add: collect_text_parts_def item_step_def)
next
  case (JDict kvs)
  then show ?thesis using assms by (cases kvs) (simp_all add: collect_text_parts_def item_step_def)
qed (use assms in \<open>simp_all add: collect_text_parts_def\<close>)

lemma extract_description_try_bad:
  assumes "bad_document d" and "extract_description_try d = Inr s"
  shows "s = ''No description available''"
proof (cases d)
  case (JDict kvs)
  show ?thesis
  proof (cases "map_of kvs ''content''")
    case None
    then show ?thesis using assms JDict by simp
  next
    case (Some c)
    show ?thesis
    proof (cases "truthy c")
      case False
      then show ?thesis using assms(2) JDict Some by (simp add: extract_description_try_def)
    next
      case True
      from assms(2) JDict Some True obtain parts where
        parts: "collect_text_parts c = Inr parts"
        and fin: "(if parts \<noteq> [] then py_join '' '' parts else Inr ''No description available'') = Inr s"
        by (auto simp: extract_description_try_def and_then_eq_Inr)
      have "case c of JList blocks \<Rightarrow> list_ex bad_block blocks | _ \<Rightarrow> True"
        using assms(1) JDict Some by (simp split: json.splits)
      with True have "has_nonstr parts" using parts by (rule collect_text_parts_bad)
      then show ?thesis using fin by (auto simp: py_join_nonstr split: if_splits)
    qed
  qed
qed (use assms in \<open>simp_all add: extract_description_try_def\<close>)

lemma extract_bad_document:
  "bad_document d \<Longrightarrow> extract_description_from_jira d = Inr ''No description available''"
  using extract_never_raises [of d]
  by (auto simp: extract_description_from_jira_def split: sum.splits if_splits
      dest: extract_description_try_bad)

lemma extract_description_try_bad_raises:
  assumes "bad_document d"
  shows "\<exists>e. extract_description_try d = Inl e"
proof (cases "extract_description_try d")
  case (Inl e)
  then show ?thesis by blast
next
  case (Inr s)
  show ?thesis
  proof (cases d)
    case (JDict kvs)
    then obtain c where c: "map_of kvs ''content'' = Some c" and "truthy c"
      and shape: "case c of JList blocks \<Rightarrow> list_ex bad_block blocks | _ \<Rightarrow> True"
      using assms by (auto split: option.splits)
    from Inr JDict c \<open>truthy c\<close> obtain parts where
      parts: "collect_text_parts c = Inr parts"
      and fin: "(if parts \<noteq> [] then py_join '' '' parts else Inr ''No description available'') = Inr s"
      by (auto simp: extract_description_try_def and_then_eq_Inr)
    from \<open>truthy c\<close> shape parts have "has_nonstr parts" by (rule collect_text_parts_bad)
    moreover from this have "parts \<noteq> []" by auto
    ultimately have False using fin by (simp add: py_join_nonstr)
    then show ?thesis ..
  qed (use Inr in \<open>simp_all add: extract_description_try_def\<close>)
qed

subsection \<open>Every other document is traversed without an exception\<close>

lemma py_join_strs: "\<not> has_nonstr xs \<Longrightarrow> \<exists>s. py_join sep xs = Inr s"
proof (induction sep xs rule: py_join.induct)
  case (3 sep s x xs)
  then show ?case by (cases x) (auto simp: has_nonstr_def)
qed (auto simp: has_nonstr_def)

lemma text_item_step_good:
  assumes "\<not> bad_inline x" and "\<not> has_nonstr acc"
  shows "\<exists>r. text_item_step x acc = Inr r \<and> \<not> has_nonstr r"
proof (cases x)
  case (JDict kvs)
  show ?thesis
  proof (cases "map_of kvs ''type'' = Some (JStr ''text'')")
    case True
    then show ?thesis using assms JDict
      by (cases "map_of kvs ''text''") (auto simp: text_item_step_def has_nonstr_def)
  next
    case False
    then show ?thesis using assms JDict
      by (auto simp: text_item_step_def split: option.splits)
  qed
qed (use assms in simp_all)

lemma paragraph_loop_good:
  "\<not> list_ex bad_inline xs \<Longrightarrow> \<not> has_nonstr acc \<Longrightarrow>
   \<exists>r. paragraph_loop xs acc = Inr r \<and> \<not> has_nonstr r"
proof (induction xs arbitrary: acc)
  case Nil
  then show ?case by simp
next
  case (Cons x xs)
  then obtain acc' where "text_item_step x acc = Inr acc'" and "\<not> has_nonstr acc'"
    using text_item_step_good [of x acc] by auto
  then show ?case using Cons by simp
qed

lemma paragraph_content_good:
  assumes "\<not> bad_paragraph_content c" and "\<not> has_nonstr acc"
  shows "\<exists>r. and_then (py_iter c) (\<lambda>xs. paragraph_loop xs acc) = Inr r \<and> \<not> has_nonstr r"
proof (cases c)
  case (JList xs)
  then show ?thesis using assms paragraph_loop_good [of xs acc] by simp
qed (use assms in simp_all)

lemma item_step_good:
  assumes "\<not> bad_block x" and "\<not> has_nonstr acc"
  shows "\<exists>r. item_step x acc = Inr r \<and> \<not> has_nonstr r"
proof (cases x)
  case (JDict kvs)
  show ?thesis
  proof (cases "map_of kvs ''type'' = Some (JStr ''paragraph'')")
    case True
    let ?c = "case map_of kvs ''content'' of None \<Rightarrow> JList [] | Some v \<Rightarrow> v"
    have "\<not> bad_paragraph_content ?c"
      using assms(1) JDict True by (auto split: option.splits)
    then have "\<exists>r. and_then (py_iter ?c) (\<lambda>xs. paragraph_loop xs acc) = Inr r \<and> \<not> has_nonstr r"
      using assms(2) by (rule paragraph_content_good)
    then show ?thesis using JDict True by (simp add: item_step_def)
  next
    case False
    then show ?thesis using assms JDict by (auto simp: item_step_def split: option.splits)
  qed
qed (use assms in simp_all)

lemma content_loop_good:
  "\<not> list_ex bad_block xs \<Longrightarrow> \<not> has_nonstr acc \<Longrightarrow>
   \<exists>r. content_loop xs acc = Inr r \<and> \<not> has_nonstr r"
proof (induction xs arbitrary: acc)
  case Nil
  then show ?case by simp
next
  case (Cons x xs)
  then obtain acc' where "item_step x acc = Inr acc'" and "\<not> has_nonstr acc'"
    using item_step_good [of x acc] by auto
  then show ?case using Cons by simp
qed

lemma extract_description_try_good:
  assumes "\<not> bad_document d"
  shows "\<exists>s. extract_description_try d = Inr s"
proof (cases d)
  case (JDict kvs)
  show ?thesis
  proof (cases "map_of kvs ''content''")
    case None
    then show ?thesis using JDict by (simp add: extract_description_try_def)
  next
    case (Some c)
    show ?thesis
    proof (cases "truthy c")
      case False
      then show ?thesis using JDict Some by (simp add: extract_description_try_def)
    next
      case True
      then obtain blocks where c: "c = JList blocks" and good: "\<not> list_ex bad_block blocks"
        using assms JDict Some by (cases c) auto
      obtain parts where parts: "content_loop blocks [] = Inr parts" and strs: "\<not> has_nonstr parts"
        using content_loop_good [OF good, of "[]"] by auto
      obtain s where "py_join '' '' parts = Inr s"
        using py_join_strs [OF strs] by blast
      then show ?thesis using JDict Some True c parts
        by (simp add: extract_description_try_def collect_text_parts_def)
    qed
  qed
qed (use assms in simp_all)

lemma extract_description_try_raises_iff:
  "(\<exists>e. extract_description_try d = Inl e) \<longleftrightarrow> bad_document d"
proof
  assume "\<exists>e. extract_description_try d = Inl e"
  then obtain e where e: "extract_description_try d = Inl e" by blast
  show "bad_document d"
  proof (rule ccontr)
    assume "\<not> bad_document d"
    then obtain s where "extract_description_try d = Inr s"
      using extract_description_try_good by blast
    with e show False by simp
  qed
next
  assume "bad_document d"
  then show "\<exists>e. extract_description_try d = Inl e"
    by (rule extract_description_try_bad_raises)
qed

subsection \<open>Well-formed documents\<close>

lemma nonempty_runs_append [simp]: "nonempty_runs (xs @ ys) = nonempty_runs xs @ nonempty_runs ys"
  by (simp add: nonempty_runs_def)

lemma text_item_step_encode:
  "typed_inline n \<Longrightarrow> text_item_step (encode_inline n) acc = Inr (acc @ nonempty_runs (inline_runs n))"
  by (cases n) (auto simp: text_item_step_def nonempty_runs_def split: option.splits)

lemma paragraph_loop_encode:
  "list_all typed_inline inls \<Longrightarrow>
   paragraph_loop (map encode_inline inls) acc = Inr (acc @ nonempty_runs (concat (map inline_runs inls)))"
proof (induction inls arbitrary: acc)
  case Nil
  then show ?case by (simp add: nonempty_runs_def)
next
  case (Cons n inls)
  then show ?case by (simp add: text_item_step_encode)
qed

lemma item_step_encode:
  "typed_block b \<Longrightarrow> item_step (encode_block b) acc = Inr (acc @ nonempty_runs (block_runs b))"
proof (cases b)
  case (Paragraph inls attrs)
  assume "typed_block b"
  with Paragraph show ?thesis by (simp add: item_step_def paragraph_loop_encode)
next
  case (OtherBlock attrs)
  assume "typed_block b"
  with OtherBlock show ?thesis by (auto simp: item_step_def nonempty_runs_def split: option.splits)
qed

lemma content_loop_encode:
  "list_all typed_block blocks \<Longrightarrow>
   content_loop (map encode_block blocks) acc = Inr (acc @ nonempty_runs (concat (map block_runs blocks)))"
proof (induction blocks arbitrary: acc)
  case Nil
  then show ?case by (simp add: nonempty_runs_def)
next
  case (Cons b blocks)
  then show ?case by (simp add: item_step_encode)
qed

lemma py_join_spaces: "py_join '' '' (map JStr ss) = Inr (join_spaces ss)"
  by (induction ss rule: join_spaces.induct) simp_all

lemma extract_encode_document:
  assumes "list_all typed_block blocks"
  shows "extract_description_from_jira (encode_document blocks) =
         Inr (let rs = filter (\<lambda>s. s \<noteq> []) (text_runs blocks)
              in if rs = [] then ''No description available'' else join_spaces rs)"
proof (cases blocks)
  case Nil
  then show ?thesis
    by (simp add: extract_description_from_jira_def extract_description_try_def
        encode_document_def text_runs_def)
next
  case (Cons b bs)
  have "collect_text_parts (JList (map encode_block blocks)) = Inr (nonempty_runs (text_runs blocks))"
    using content_loop_encode [OF assms, of "[]"] by (simp add: collect_text_parts_def text_runs_def)
  then have "extract_description_try (encode_document blocks) =
        Inr (let rs = filter (\<lambda>s. s \<noteq> []) (text_runs blocks)
              in if rs = [] then ''No description available'' else join_spaces rs)"
    using Cons by (simp add: extract_description_try_def encode_document_def nonempty_runs_def
        py_join_spaces Let_def)
  then show ?thesis
    by (simp add: extract_description_from_jira_def encode_document_def)
qed

lemma wf_typed_inline: "wf_inline n \<Longrightarrow> typed_inline n"
  by (cases n) simp_all

lemma wf_typed_block: "wf_block b \<Longrightarrow> typed_block b"
  by (cases b) (auto simp: list_all_iff wf_typed_inline)

lemma wf_inline_runs: "wf_inline n \<Longrightarrow> [] \<notin> set (inline_runs n)"
  by (cases n) simp_all

lemma wf_block_runs: "wf_block b \<Longrightarrow> [] \<notin> set (block_runs b)"
  by (cases b) (auto simp: list_all_iff dest: wf_inline_runs)

lemma wf_text_runs: "list_all wf_block blocks \<Longrightarrow> filter (\<lambda>s. s \<noteq> []) (text_runs blocks) = text_runs blocks"
  by (auto simp: text_runs_def list_all_iff filter_id_conv dest: wf_block_runs)

subsection \<open>The result is never empty\<close>

lemma text_item_step_truthy:
  "list_all truthy acc \<Longrightarrow> text_item_step x acc = Inr r \<Longrightarrow> list_all truthy r"
  by (cases x) (auto simp: text_item_step_def split: if_splits option.splits)

lemma paragraph_loop_truthy:
  "list_all truthy acc \<Longrightarrow> paragraph_loop xs acc = Inr r \<Longrightarrow> list_all truthy r"
  by (induction xs arbitrary: acc) (auto simp: and_then_eq_Inr dest: text_item_step_truthy)

lemma item_step_truthy:
  "list_all truthy acc \<Longrightarrow> item_step x acc = Inr r \<Longrightarrow> list_all truthy r"
  by (auto simp: item_step_def and_then_eq_Inr split: if_splits dest: paragraph_loop_truthy)

lemma content_loop_truthy:
  "list_all truthy acc \<Longrightarrow> content_loop xs acc = Inr r \<Longrightarrow> list_all truthy r"
  by (induction xs arbitrary: acc) (auto simp: and_then_eq_Inr dest: item_step_truthy)

lemma py_join_nonempty:
  "xs \<noteq> [] \<Longrightarrow> list_all truthy xs \<Longrightarrow> py_join sep xs = Inr s \<Longrightarrow> s \<noteq> []"
  by (induction sep xs arbitrary: s rule: py_join.induct) (auto simp: and_then_eq_Inr)

lemma extract_description_try_nonempty: "extract_description_try d \<noteq> Inr []"
proof
  assume a: "extract_description_try d = Inr []"
  then obtain c where c: "py_get d ''content'' (JList []) = Inr c" and "truthy c"
    and rest: "and_then (collect_text_parts c) (\<lambda>text_parts.
         if text_parts \<noteq> [] then py_join '' '' text_parts
         else Inr ''No description available'') = Inr []"
    by (auto simp: extract_description_try_def and_then_eq_Inr split: if_splits)
  then obtain parts where parts: "collect_text_parts c = Inr parts" and "parts \<noteq> []"
    and j: "py_join '' '' parts = Inr []"
    by (auto simp: and_then_eq_Inr split: if_splits)
  from parts have "list_all truthy parts"
    by (auto simp: collect_text_parts_def and_then_eq_Inr dest: content_loop_truthy [rotated])
  with \<open>parts \<noteq> []\<close> j show False by (auto dest: py_join_nonempty)
qed

lemma extract_description_nonempty: "extract_description_from_jira d \<noteq> Inr []"
  using extract_description_try_nonempty [of d]
  by (auto simp: extract_description_from_jira_def split: sum.splits if_splits)

lemma extract_no_parts:
  assumes "map_of kvs ''content'' = Some c" and "collect_text_parts c = Inr []"
  shows "extract_description_from_jira (JDict kvs) = Inr ''No description available''"
  using assms by (simp add: extract_description_from_jira_def extract_description_try_def)

lemma extract_no_blocks:
  assumes "case map_of kvs ''content'' of None \<Rightarrow> True | Some c \<Rightarrow> \<not> truthy c"
  shows "extract_description_from_jira (JDict kvs) = Inr ''No description available''"
  using assms by (auto simp: extract_description_from_jira_def extract_description_try_def split: option.splits)

text \<open>
  Claim C4. For every well-formed document that has text runs, the extractor returns all its
  text runs joined by single spaces, in document order: block after block, and inside a
  paragraph node after node. Blocks and inline nodes of another type, or of no type, add
  nothing. The extractor is a function of its input, so extracting again gives the same text.
\<close>

theorem extract_description_wellformed:
  assumes "list_all wf_block blocks" and "text_runs blocks \<noteq> []"
  shows "extract_description_from_jira (encode_document blocks) = Inr (join_spaces (text_runs blocks))"
proof -
  have "list_all typed_block blocks"
    using assms(1) by (auto simp: list_all_iff wf_typed_block)
  then show ?thesis
    using assms by (simp add: extract_encode_document wf_text_runs)
qed

text \<open>
  The theorem at a document of two paragraphs, a rule and a hard break.
\<close>

theorem extract_description_wellformed_witness:
  "list_all wf_block
     [Paragraph [TextRun ''Login'' [], OtherInline [(''type'', JStr ''hardBreak'')],
                 TextRun ''fails'' [(''marks'', JList [])]] [],
      OtherBlock [(''type'', JStr ''rule'')],
      Paragraph [TextRun ''on Safari'' []] []] \<and>
   text_runs
     [Paragraph [TextRun ''Login'' [], OtherInline [(''type'', JStr ''hardBreak'')],
                 TextRun ''fails'' [(''marks'', JList [])]] [],
      OtherBlock [(''type'', JStr ''rule'')],
      Paragraph [TextRun ''on Safari'' []] []] \<noteq> [] \<and>
   extract_description_from_jira (encode_document
     [Paragraph [TextRun ''Login'' [], OtherInline [(''type'', JStr ''hardBreak'')],
                 TextRun ''fails'' [(''marks'', JList [])]] [],
      OtherBlock [(''type'', JStr ''rule'')],
      Paragraph [TextRun ''on Safari'' []] []]) = Inr ''Login fails on Safari''"
  using extract_description_wellformed
     [of "[Paragraph [TextRun ''Login'' [], OtherInline [(''type'', JStr ''hardBreak'')],
                 TextRun ''fails'' [(''marks'', JList [])]] [],
      OtherBlock [(''type'', JStr ''rule'')],
      Paragraph [TextRun ''on Safari'' []] []]"]
  by (simp add: text_runs_def)

text \<open>
  Claim C5. The extractor returns exactly \<open>No description available\<close> when the document is
  absent or empty (any false value), when it has no blocks (no \<open>content\<close>, or an empty
  one), when the traversal collects no text part, and when a document built from blocks has no
  text run that is not empty. It never returns the empty string.
\<close>

theorem extract_description_sentinel:
  "(\<not> truthy d \<longrightarrow> extract_description_from_jira d = Inr ''No description available'') \<and>
   ((case map_of kvs ''content'' of None \<Rightarrow> True | Some c \<Rightarrow> \<not> truthy c) \<longrightarrow>
      extract_description_from_jira (JDict kvs) = Inr ''No description available'') \<and>
   (map_of kvs' ''content'' = Some c \<and> collect_text_parts c = Inr [] \<longrightarrow>
      extract_description_from_jira (JDict kvs') = Inr ''No description available'') \<and>
   (list_all typed_block blocks \<and> filter (\<lambda>s. s \<noteq> []) (text_runs blocks) = [] \<longrightarrow>
      extract_description_from_jira (encode_document blocks) = Inr ''No description available'') \<and>
   extract_description_from_jira d' \<noteq> Inr []"
proof (intro conjI impI)
  assume "\<not> truthy d"
  then show "extract_description_from_jira d = Inr ''No description available''"
    by (simp add: extract_description_from_jira_def)
next
  assume "case map_of kvs ''content'' of None \<Rightarrow> True | Some c \<Rightarrow> \<not> truthy c"
  then show "extract_description_from_jira (JDict kvs) = Inr ''No description available''"
    by (rule extract_no_blocks)
next
  assume "map_of kvs' ''content'' = Some c \<and> collect_text_parts c = Inr []"
  then show "extract_description_from_jira (JDict kvs') = Inr ''No description available''"
    by (simp add: extract_no_parts)
next
  assume "list_all typed_block blocks \<and> filter (\<lambda>s. s \<noteq> []) (text_runs blocks) = []"
  then show "extract_description_from_jira (encode_document blocks) = Inr ''No description available''"
    by (simp add: extract_encode_document)
next
  show "extract_description_from_jira d' \<noteq> Inr []"
    by (rule extract_description_nonempty)
qed

text \<open>
  The theorem at one input for each of the cases.
\<close>

theorem extract_description_sentinel_witness:
  "\<not> truthy JNull \<and>
   extract_description_from_jira JNull = Inr ''No description available'' \<and>
   (case map_of [(''type'', JStr ''doc''), (''content'', JList [])] ''content'' of
      None \<Rightarrow> True | Some c \<Rightarrow> \<not> truthy c) \<and>
   extract_description_from_jira (JDict [(''type'', JStr ''doc''), (''content'', JList [])])
     = Inr ''No description available'' \<and>
   map_of [(''content'', JList [JDict [(''type'', JStr ''rule'')]])] ''content''
     = Some (JList [JDict [(''type'', JStr ''rule'')]]) \<and>
   collect_text_parts (JList [JDict [(''type'', JStr ''rule'')]]) = Inr [] \<and>
   extract_description_from_jira (JDict [(''content'', JList [JDict [(''type'', JStr ''rule'')]])])
     = Inr ''No description available'' \<and>
   list_all typed_block [Paragraph [TextRun [] [], OtherInline [(''type'', JStr ''mention'')]] []] \<and>
   filter (\<lambda>s. s \<noteq> [])
     (text_runs [Paragraph [TextRun [] [], OtherInline [(''type'', JStr ''mention'')]] []]) = [] \<and>
   extract_description_from_jira
     (encode_document [Paragraph [TextRun [] [], OtherInline [(''type'', JStr ''mention'')]] []])
     = Inr ''No description available'' \<and>
   extract_description_from_jira (JDict [(''content'', JList [])]) \<noteq> Inr []"
  using extract_description_sentinel
    [of JNull "[(''type'', JStr ''doc''), (''content'', JList [])]"
        "[(''content'', JList [JDict [(''type'', JStr ''rule'')]])]"
        "JList [JDict [(''type'', JStr ''rule'')]]"
        "[Paragraph [TextRun [] [], OtherInline [(''type'', JStr ''mention'')]] []]"
        "JDict [(''content'', JList [])]"]
  by (simp add: collect_text_parts_def item_step_def text_runs_def)

text \<open>
  A false text, a node of another type that holds values of the wrong kind, and an empty
  string as the content of a paragraph are skipped.
\<close>

lemma skipped_values_example:
  "\<not> bad_document (JDict [(''content'', JList
      [JDict [(''type'', JStr ''paragraph''),
              (''content'', JList [JDict [(''type'', JStr ''text''), (''text'', JStr ''hi'')],
                                   JDict [(''type'', JStr ''text''), (''text'', JInt 0)]])],
       JDict [(''type'', JStr ''bulletList''), (''content'', JList [JInt 5, JNull])],
       JDict [(''type'', JStr ''paragraph''), (''content'', JStr [])]])]) \<and>
   extract_description_from_jira (JDict [(''content'', JList
      [JDict [(''type'', JStr ''paragraph''),
              (''content'', JList [JDict [(''type'', JStr ''text''), (''text'', JStr ''hi'')],
                                   JDict [(''type'', JStr ''text''), (''text'', JInt 0)]])],
       JDict [(''type'', JStr ''bulletList''), (''content'', JList [JInt 5, JNull])],
       JDict [(''type'', JStr ''paragraph''), (''content'', JStr [])]])])
     = Inr ''hi''"
  by (simp add: extract_description_from_jira_def extract_description_try_def
      collect_text_parts_def item_step_def text_item_step_def)

text \<open>
  A document with a text node that has no \<open>text\<close>, a block that has no \<open>type\<close> and a
  paragraph whose content is an empty object instead of a sequence: the three nodes are
  skipped and the text of the remaining run is returned, not the sentinel.
\<close>

theorem extract_description_skips_counterexample:
  "extract_description_from_jira (JDict [(''content'', JList
      [JDict [(''type'', JStr ''paragraph''),
              (''content'', JList [JDict [(''type'', JStr ''text''), (''text'', JStr ''hi'')],
                                   JDict [(''type'', JStr ''text'')]])],
       JDict [(''content'', JList [])],
       JDict [(''type'', JStr ''paragraph''), (''content'', JDict [])]])])
     = Inr ''hi'' \<and>
   extract_description_from_jira (JDict [(''content'', JList
      [JDict [(''type'', JStr ''paragraph''),
              (''content'', JList [JDict [(''type'', JStr ''text''), (''text'', JStr ''hi'')],
                                   JDict [(''type'', JStr ''text'')]])],
       JDict [(''content'', JList [])],
       JDict [(''type'', JStr ''paragraph''), (''content'', JDict [])]])])
     \<noteq> Inr ''No description available''"
  by (simp add: extract_description_from_jira_def extract_description_try_def
      collect_text_parts_def item_step_def text_item_step_def)

text \<open>
  Claim C3, amended. The extractor never raises, whatever it is given, and it returns
  \<open>No description available\<close> on every document on which the traversal raises. On a document
  that is a true value the traversal raises exactly when the document is not an object, or
  its content is a true value other than a list, or its content is a list that holds a block
  that is not an object or a paragraph whose content is \<^verbatim>\<open>None\<close>, a boolean, a number, a string
  or object that is not empty, or a list that holds an inline node that is not an object or
  a text node whose text is a true value other than a string. Every other node is skipped and
  does not force the sentinel: a node that lacks a field, a node of another type with
  whatever it holds, an empty string or object as the content of a paragraph, a false text.
\<close>

theorem extract_description_shape_errors:
  "(\<exists>s. extract_description_from_jira d = Inr s) \<and>
   (\<forall>e. extract_description_try d = Inl e \<longrightarrow>
      extract_description_from_jira d = Inr ''No description available'') \<and>
   (truthy d \<longrightarrow> ((\<exists>e. extract_description_try d = Inl e) \<longleftrightarrow> bad_document d)) \<and>
   (bad_document d \<longrightarrow> extract_description_from_jira d = Inr ''No description available'')"
  using extract_description_try_raises_iff [of d]
  by (auto simp: extract_never_raises extract_bad_document extract_error_sentinel)

text \<open>
  The theorem at a paragraph whose content is a number.
\<close>

theorem extract_description_shape_errors_witness:
  "truthy (JDict [(''content'',
      JList [JDict [(''type'', JStr ''paragraph''), (''content'', JInt 7)]])]) \<and>
   bad_document (JDict [(''content'',
      JList [JDict [(''type'', JStr ''paragraph''), (''content'', JInt 7)]])]) \<and>
   extract_description_try (JDict [(''content'',
      JList [JDict [(''type'', JStr ''paragraph''), (''content'', JInt 7)]])]) = Inl TypeError \<and>
   extract_description_from_jira (JDict [(''content'',
      JList [JDict [(''type'', JStr ''paragraph''), (''content'', JInt 7)]])])
     = Inr ''No description available''"
  using extract_description_shape_errors
    [of "JDict [(''content'', JList [JDict [(''type'', JStr ''paragraph''), (''content'', JInt 7)]])]"]
  by (simp add: extract_description_try_def collect_text_parts_def item_step_def)

text \<open>
  Claim C6. The field accessor returns \<open>Unknown\<close> for an absent or empty object and for a
  dictionary without the key, the stored value for a dictionary with the key, and the string
  form of any other true value.
\<close>

theorem extract_jira_field_value_cases:
  "(\<not> truthy obj \<longrightarrow> extract_jira_field_value E obj k = JStr ''Unknown'') \<and>
   (kvs \<noteq> [] \<and> map_of kvs k = None \<longrightarrow> extract_jira_field_value E (JDict kvs) k = JStr ''Unknown'') \<and>
   (map_of kvs' k = Some v \<longrightarrow> extract_jira_field_value E (JDict kvs') k = v) \<and>
   (truthy other \<and> \<not> is_dict other \<longrightarrow>
      extract_jira_field_value E other k = JStr (py_str E other))"
  by (cases other) (auto simp: extract_jira_field_value_def is_dict_def)

text \<open>
  The theorem at one input for each of the four cases.
\<close>

theorem extract_jira_field_value_cases_witness:
  "\<not> truthy (JDict []) \<and>
   extract_jira_field_value (test_env offline) (JDict []) ''name'' = JStr ''Unknown'' \<and>
   [(''id'', JStr ''3'')] \<noteq> [] \<and> map_of [(''id'', JStr ''3'')] ''name'' = None \<and>
   extract_jira_field_value (test_env offline) (JDict [(''id'', JStr ''3'')]) ''name'' = JStr ''Unknown'' \<and>
   map_of [(''id'', JStr ''3''), (''name'', JStr ''In Progress'')] ''name'' = Some (JStr ''In Progress'') \<and>
   extract_jira_field_value (test_env offline) (JDict [(''id'', JStr ''3''), (''name'', JStr ''In Progress'')]) ''name''
     = JStr ''In Progress'' \<and>
   truthy (JInt 42) \<and> \<not> is_dict (JInt 42) \<and>
   extract_jira_field_value (test_env offline) (JInt 42) ''name'' = JStr ''42''"
  using extract_jira_field_value_cases
    [of "JDict []" "test_env offline" "''name''" "[(''id'', JStr ''3'')]"
        "[(''id'', JStr ''3''), (''name'', JStr ''In Progress'')]" "JStr ''In Progress''" "JInt 42"]
  by (simp add: is_dict_def int_str_def nat_digits.simps char_of_def bit_Suc_0_iff)

section \<open>Properties of the requests and of the page reconciliation\<close>

subsection \<open>The request functions\<close>

lemma io_bind_Inr [simp]: "io_bind (Inr x, tr) f = f x tr"
  by (simp add: io_bind_def)

lemma io_bind_Inl [simp]: "io_bind (Inl e, tr) f = (Inl e, tr)"
  by (simp add: io_bind_def)

lemma try_except_Inr [simp]: "try_except (Inr x, tr) h = (Inr x, tr)"
  by (simp add: try_except_def)

lemma try_except_Inl [simp]: "try_except (Inl e, tr) h = (Inr (h e), tr)"
  by (simp add: try_except_def)

lemma http_send_test_env [simp]: "http_send (test_env srv) = srv"
  by (simp add: test_env_def)

lemma request_handlers_exchange:
  "request_handlers (http_exchange E rq tr) = (json_of (http_send E tr rq), tr @ [rq])"
  by (cases "http_send E tr rq") (simp_all add: request_handlers_def http_exchange_def)

lemma make_jira_request_eq:
  "make_jira_request E endpoint tr =
     (json_of (http_send E tr (jira_request E endpoint)), tr @ [jira_request E endpoint])"
  by (simp add: make_jira_request_def request_handlers_exchange)

lemma upper_literals:
  "upper E ''GET'' = ''GET''" "upper E ''POST'' = ''POST''" "upper E ''PUT'' = ''PUT''"
  by (simp_all add: upper_def upper_char_def is_ascii_def)

text \<open>
  A method with a character outside ASCII whose upper-case form is \<open>POST\<close>, as the
  interpreter gives it for a long s in place of the \<open>S\<close>, is sent as a \<open>POST\<close>.
\<close>

lemma non_ascii_method_POST:
  assumes "\<not> list_all is_ascii m" and "unicode_upper E m = ''POST''"
  shows "make_confluence_request E endpoint payload m tr =
           (json_of (http_send E tr (confluence_request E POST endpoint payload)),
            tr @ [confluence_request E POST endpoint payload])"
  using assms
  by (simp add: make_confluence_request_def make_confluence_request_try_def upper_def
      request_handlers_exchange)

lemma make_confluence_request_GET:
  "make_confluence_request E endpoint payload ''GET'' tr =
     (json_of (http_send E tr (confluence_request E GET endpoint payload)),
      tr @ [confluence_request E GET endpoint payload])"
  by (simp add: make_confluence_request_def make_confluence_request_try_def upper_literals
      request_handlers_exchange)

lemma make_confluence_request_POST:
  "make_confluence_request E endpoint payload ''POST'' tr =
     (json_of (http_send E tr (confluence_request E POST endpoint payload)),
      tr @ [confluence_request E POST endpoint payload])"
  by (simp add: make_confluence_request_def make_confluence_request_try_def upper_literals
      request_handlers_exchange)

lemma make_confluence_request_PUT:
  "make_confluence_request E endpoint payload ''PUT'' tr =
     (json_of (http_send E tr (confluence_request E PUT endpoint payload)),
      tr @ [confluence_request E PUT endpoint payload])"
  by (simp add: make_confluence_request_def make_confluence_request_try_def upper_literals
      request_handlers_exchange)

lemma long_s_method_sent:
  "make_confluence_request env_long_s ''/rest/api/content/'' (page_data ''SPACE'' ''Plan'' ''<p/>'')
     long_s_post []
   = (JNull, [create_request env_long_s ''SPACE'' ''Plan'' ''<p/>''])"
proof -
  have "\<not> list_all is_ascii long_s_post"
    by (simp add: long_s_post_def is_ascii_def)
  moreover have "unicode_upper env_long_s long_s_post = ''POST''"
    by (simp add: env_long_s_def)
  moreover have "http_send env_long_s = offline"
    by (simp add: env_long_s_def test_env_def)
  ultimately show ?thesis
    by (simp add: non_ascii_method_POST create_request_def offline_def)
qed

text \<open>
  Claim C10. For a method whose upper-case form, as \<^verbatim>\<open>method.upper()\<close> gives it, is none of
  \<open>GET\<close>, \<open>POST\<close> and \<open>PUT\<close>, the statements inside \<^verbatim>\<open>try\<close> raise \<^verbatim>\<open>ValueError\<close> without sending a request, the
  \<^verbatim>\<open>except\<close> clause that takes it is the one that takes a transport error, and the wiki
  request function returns \<^verbatim>\<open>None\<close>, which is also what it returns when sending fails.
\<close>

theorem unsupported_method_absent:
  assumes "upper E m \<notin> {''GET'', ''POST'', ''PUT''}"
  shows "make_confluence_request_try E endpoint payload m tr = (Inl ValueError, tr) \<and>
         except_clause ValueError = except_clause TransportError \<and>
         make_confluence_request E endpoint payload m tr = (JNull, tr) \<and>
         (http_send E tr rq = SendFailed \<longrightarrow>
            fst (request_handlers (http_exchange E rq tr)) = JNull)"
  using assms
  by (simp add: make_confluence_request_def make_confluence_request_try_def request_handlers_def
      http_exchange_def)

text \<open>
  The theorem at the method \<open>delete\<close>.
\<close>

theorem unsupported_method_absent_witness:
  "upper (test_env offline) ''delete'' \<notin> {''GET'', ''POST'', ''PUT''} \<and>
   make_confluence_request (test_env offline) ''/rest/api/content/1'' JNull ''delete'' [] = (JNull, []) \<and>
   http_send (test_env offline) [] (search_request (test_env offline) ''SPACE'' ''Plan'') = SendFailed \<and>
   fst (request_handlers (http_exchange (test_env offline)
      (search_request (test_env offline) ''SPACE'' ''Plan'') [])) = JNull"
  using unsupported_method_absent
    [where m = "''delete''" and E = "test_env offline" and tr = "[]"
       and rq = "search_request (test_env offline) ''SPACE'' ''Plan''"
       and endpoint = "''/rest/api/content/1''" and payload = JNull]
  by (simp add: upper_def upper_char_def is_ascii_def char_of_def bit_Suc_0_iff test_env_def
      offline_def)

subsection \<open>Fetching the issue, finding and writing the page\<close>

lemma extract_description_of: "extract_description_from_jira v = Inr (description_of v)"
  using extract_never_raises [of v] by (auto simp: description_of_def)

lemma issue_record_dict: "issue_record E k (JDict f) = Inr (issue_dict E k f)"
  by (simp add: issue_record_def issue_dict_def dict_get_def extract_description_of)

lemma fetch_issue_failed:
  "\<not> truthy (json_of (http_send E tr (issue_request E k))) \<Longrightarrow>
   fetch_jira_issue_details E k tr = (Inr None, tr @ [issue_request E k])"
  by (simp add: fetch_jira_issue_details_def make_jira_request_eq issue_request_def)

lemma fetch_issue_usable:
  assumes "http_send E tr (issue_request E k) = Json data" and "usable_issue data"
  shows "\<exists>f. fetch_jira_issue_details E k tr = (Inr (Some (issue_dict E k f)), tr @ [issue_request E k])"
proof (cases data)
  case (JDict kvs)
  show ?thesis
  proof (cases "map_of kvs ''fields''")
    case None
    then show ?thesis using assms JDict
      by (auto simp: fetch_jira_issue_details_def make_jira_request_eq issue_request_def
          issue_record_dict)
  next
    case (Some v)
    then obtain f where "v = JDict f" using assms(2) JDict by (cases v) (simp_all add: is_dict_def)
    then show ?thesis using assms JDict Some
      by (auto simp: fetch_jira_issue_details_def make_jira_request_eq issue_request_def
          issue_record_dict)
  qed
qed (use assms in simp_all)

lemma find_page_failed:
  "failed (http_send E tr (search_request E s t)) \<Longrightarrow>
   find_existing_confluence_page E s t tr = (Inr JNull, tr @ [search_request E s t])"
  by (cases "http_send E tr (search_request E s t)")
     (simp_all add: find_existing_confluence_page_def make_confluence_request_GET search_request_def Let_def)

lemma find_page_no_results:
  "http_send E tr (search_request E s t) = Json sd \<Longrightarrow> no_results sd \<Longrightarrow>
   find_existing_confluence_page E s t tr = (Inr JNull, tr @ [search_request E s t])"
  by (cases sd)
     (auto simp: find_existing_confluence_page_def make_confluence_request_GET search_request_def Let_def
       split: option.splits)

lemma find_page_first:
  "http_send E tr (search_request E s t) = Json (JDict sk) \<Longrightarrow>
   map_of sk ''results'' = Some (JList (p # ps)) \<Longrightarrow>
   find_existing_confluence_page E s t tr = (Inr p, tr @ [search_request E s t])"
  by (auto simp: find_existing_confluence_page_def make_confluence_request_GET search_request_def Let_def)

lemma create_page_eq:
  "create_new_confluence_page E s t b tr =
     (json_of (http_send E tr (create_request E s t b)), tr @ [create_request E s t b])"
  by (simp add: create_new_confluence_page_def make_confluence_request_POST create_request_def)

lemma extract_page_url_links:
  "map_of rk ''_links'' = Some (JDict lk) \<Longrightarrow> map_of lk ''base'' = Some (JStr base) \<Longrightarrow>
   map_of lk ''webui'' = Some (JStr webui) \<Longrightarrow>
   extract_page_url E (JDict rk) = Inr (base @ webui)"
  by (simp add: extract_page_url_def)

text \<open>
  Claim C7. When the arguments are given and the issue is fetched, a search that gives no
  JSON is taken as \<open>no page found\<close>: the lookup returns \<^verbatim>\<open>None\<close> and the creation request
  is sent next. If the creation gives no JSON either, the tool returns the failure message
  \<open>Failed to create new test plan page\<close>, which carries no URL.
\<close>

theorem search_failure_then_create:
  assumes args: "k \<noteq> []" "s \<noteq> []" "t \<noteq> []" "b \<noteq> []"
    and issue: "http_send E tr (issue_request E k) = Json data" "usable_issue data"
    and search: "failed (http_send E (tr @ [issue_request E k]) (search_request E s t))"
  shows "find_existing_confluence_page E s t (tr @ [issue_request E k])
           = (Inr JNull, tr @ [issue_request E k, search_request E s t]) \<and>
         snd (create_test_plan_from_jira E k s t b tr)
           = tr @ [issue_request E k, search_request E s t, create_request E s t b] \<and>
         (failed (http_send E (tr @ [issue_request E k, search_request E s t]) (create_request E s t b)) \<longrightarrow>
            create_test_plan_from_jira E k s t b tr
              = (Inr ''Failed to create new test plan page'',
                 tr @ [issue_request E k, search_request E s t, create_request E s t b]))"
proof -
  obtain f where f: "fetch_jira_issue_details E k tr = (Inr (Some (issue_dict E k f)), tr @ [issue_request E k])"
    using fetch_issue_usable [OF issue] by blast
  have nonempty: "issue_dict E k f \<noteq> []" by (simp add: issue_dict_def)
  have find: "find_existing_confluence_page E s t (tr @ [issue_request E k])
           = (Inr JNull, tr @ [issue_request E k, search_request E s t])"
    using find_page_failed [OF search] by simp
  have run: "create_test_plan_try E k s t b tr =
     (let r = json_of (http_send E (tr @ [issue_request E k, search_request E s t]) (create_request E s t b))
      in if truthy r
         then and_then (extract_page_url E r) (\<lambda>u. Inr (''Test plan page created successfully: '' @ u))
         else Inr ''Failed to create new test plan page'',
      tr @ [issue_request E k, search_request E s t, create_request E s t b])"
    using args nonempty by (simp add: create_test_plan_try_def f find create_page_eq Let_def)
  have trace: "snd (create_test_plan_from_jira E k s t b tr)
           = tr @ [issue_request E k, search_request E s t, create_request E s t b]"
    by (simp add: create_test_plan_from_jira_def run try_except_def Let_def split: sum.splits)
  have fail: "create_test_plan_from_jira E k s t b tr
              = (Inr ''Failed to create new test plan page'',
                 tr @ [issue_request E k, search_request E s t, create_request E s t b])"
    if "failed (http_send E (tr @ [issue_request E k, search_request E s t]) (create_request E s t b))"
    using that
    by (cases "http_send E (tr @ [issue_request E k, search_request E s t]) (create_request E s t b)")
       (simp_all add: create_test_plan_from_jira_def run)
  show ?thesis using find trace fail by blast
qed

text \<open>
  The theorem where the wiki answers nothing after the issue was fetched.
\<close>

theorem search_failure_then_create_witness:
  "''ABC-1'' \<noteq> [] \<and> ''SPACE'' \<noteq> [] \<and> ''Test Plan for ABC-1'' \<noteq> [] \<and> ''<p>Steps</p>'' \<noteq> [] \<and>
   http_send env_wiki_down [] (issue_request env_wiki_down ''ABC-1'') = Json demo_issue \<and>
   usable_issue demo_issue \<and>
   failed (http_send env_wiki_down ([] @ [issue_request env_wiki_down ''ABC-1''])
     (search_request env_wiki_down ''SPACE'' ''Test Plan for ABC-1'')) \<and>
   failed (http_send env_wiki_down
     ([] @ [issue_request env_wiki_down ''ABC-1'',
            search_request env_wiki_down ''SPACE'' ''Test Plan for ABC-1''])
     (create_request env_wiki_down ''SPACE'' ''Test Plan for ABC-1'' ''<p>Steps</p>'')) \<and>
   create_test_plan_from_jira env_wiki_down ''ABC-1'' ''SPACE'' ''Test Plan for ABC-1'' ''<p>Steps</p>'' []
     = (Inr ''Failed to create new test plan page'',
        [] @ [issue_request env_wiki_down ''ABC-1'',
              search_request env_wiki_down ''SPACE'' ''Test Plan for ABC-1'',
              create_request env_wiki_down ''SPACE'' ''Test Plan for ABC-1'' ''<p>Steps</p>''])"
  using search_failure_then_create
    [where E = env_wiki_down and k = "''ABC-1''" and s = "''SPACE''"
       and t = "''Test Plan for ABC-1''" and b = "''<p>Steps</p>''" and tr = "[]"
       and data = demo_issue]
  by (simp add: env_wiki_down_def scripted_def demo_issue_def is_dict_def)

subsection \<open>The requests of the test-plan tool\<close>

lemma fetch_issue_trace: "snd (fetch_jira_issue_details E k tr) = tr @ [issue_request E k]"
  by (simp add: fetch_jira_issue_details_def make_jira_request_eq issue_request_def)

lemma find_page_trace: "snd (find_existing_confluence_page E s t tr) = tr @ [search_request E s t]"
  by (simp add: find_existing_confluence_page_def make_confluence_request_GET search_request_def Let_def)

lemma update_page_eq:
  "update_existing_confluence_page E pid s t b v tr =
     (case py_add1 v of
        Inl e \<Rightarrow> (Inl e, tr)
      | Inr v' \<Rightarrow> (Inr (json_of (http_send E tr (update_request E pid s t b v'))),
                   tr @ [update_request E pid s t b v']))"
  by (simp add: update_existing_confluence_page_def make_confluence_request_PUT update_request_def
      split: sum.splits)

lemma update_page_cases:
  "(\<exists>e. update_existing_confluence_page E pid s t b v tr = (Inl e, tr)) \<or>
   (\<exists>v'. update_existing_confluence_page E pid s t b v tr =
      (Inr (json_of (http_send E tr (update_request E pid s t b v'))), tr @ [update_request E pid s t b v']))"
  by (cases "py_add1 v") (auto simp: update_page_eq)

lemma reconcile_trace:
  fixes E s t b
  defines "reconcile \<equiv> (\<lambda>existing_page tr2.
                 if truthy existing_page then
                   io_bind (py_getitem existing_page ''id'', tr2) (\<lambda>page_id tr2.
                   io_bind (and_then (py_getitem existing_page ''version'')
                              (\<lambda>v. py_getitem v ''number''), tr2) (\<lambda>current_version tr2.
                   io_bind (update_existing_confluence_page E page_id s t b current_version tr2) (\<lambda>response_data tr3.
                     if truthy response_data
                     then (and_then (extract_page_url E response_data) (\<lambda>page_url.
                             Inr (''Test plan page updated successfully: '' @ page_url)), tr3)
                     else (Inr ''Failed to update existing test plan page'', tr3))))
                 else
                   (case create_new_confluence_page E s t b tr2 of
                      (response_data, tr3) \<Rightarrow>
                        if truthy response_data
                        then (and_then (extract_page_url E response_data) (\<lambda>page_url.
                                Inr (''Test plan page created successfully: '' @ page_url)), tr3)
                        else (Inr ''Failed to create new test plan page'', tr3)))"
  shows "snd (reconcile p tr2) = tr2 \<or> snd (reconcile p tr2) = tr2 @ [create_request E s t b] \<or>
         (\<exists>pid v. snd (reconcile p tr2) = tr2 @ [update_request E pid s t b v])"
proof (cases "truthy p")
  case False
  then show ?thesis by (simp add: reconcile_def create_page_eq)
next
  case True
  show ?thesis
  proof (cases "py_getitem p ''id''")
    case (Inl e)
    then show ?thesis using True by (simp add: reconcile_def)
  next
    case (Inr pid)
    show ?thesis
    proof (cases "and_then (py_getitem p ''version'') (\<lambda>v. py_getitem v ''number'')")
      case (Inl e)
      then show ?thesis using True Inr by (simp add: reconcile_def)
    next
      case cv: (Inr v)
      from update_page_cases [of E pid s t b v tr2] show ?thesis
      proof
        assume "\<exists>e. update_existing_confluence_page E pid s t b v tr2 = (Inl e, tr2)"
        then show ?thesis using True Inr cv by (auto simp: reconcile_def)
      next
        assume "\<exists>v'. update_existing_confluence_page E pid s t b v tr2 =
          (Inr (json_of (http_send E tr2 (update_request E pid s t b v'))), tr2 @ [update_request E pid s t b v'])"
        then obtain v' where "update_existing_confluence_page E pid s t b v tr2 =
          (Inr (json_of (http_send E tr2 (update_request E pid s t b v'))), tr2 @ [update_request E pid s t b v'])"
          by blast
        then have "snd (reconcile p tr2) = tr2 @ [update_request E pid s t b v']"
          using True Inr cv by (simp add: reconcile_def)
        then show ?thesis by blast
      qed
    qed
  qed
qed

lemma create_test_plan_try_trace:
  assumes "k \<noteq> []" "s \<noteq> []" "t \<noteq> []" "b \<noteq> []"
  shows "\<exists>rest. snd (create_test_plan_try E k s t b tr) = tr @ issue_request E k # rest \<and>
           plan_requests E s t b rest"
proof (cases "fetch_jira_issue_details E k tr")
  case (Pair r tr1)
  then have tr1: "tr1 = tr @ [issue_request E k]"
    using fetch_issue_trace [of E k tr] by simp
  show ?thesis
  proof (cases r)
    case (Inl e)
    then show ?thesis using assms Pair tr1 by (simp add: create_test_plan_try_def plan_requests_def)
  next
    case (Inr d)
    show ?thesis
    proof (cases "d = None \<or> d = Some []")
      case True
      then show ?thesis using assms Pair tr1 Inr
        by (auto simp: create_test_plan_try_def plan_requests_def)
    next
      case False
      show ?thesis
      proof (cases "find_existing_confluence_page E s t tr1")
        case found: (Pair r2 tr2)
        then have tr2: "tr2 = tr1 @ [search_request E s t]"
          using find_page_trace [of E s t tr1] by simp
        show ?thesis
        proof (cases r2)
          case (Inl e)
          then show ?thesis using assms Pair tr1 Inr False found tr2
            by (simp add: create_test_plan_try_def plan_requests_def)
        next
          case page: (Inr p)
          have body: "create_test_plan_try E k s t b tr = 
                 (if truthy p then
                   io_bind (py_getitem p ''id'', tr2) (\<lambda>page_id tr2.
                   io_bind (and_then (py_getitem p ''version'')
                              (\<lambda>v. py_getitem v ''number''), tr2) (\<lambda>current_version tr2.
                   io_bind (update_existing_confluence_page E page_id s t b current_version tr2) (\<lambda>response_data tr3.
                     if truthy response_data
                     then (and_then (extract_page_url E response_data) (\<lambda>page_url.
                             Inr (''Test plan page updated successfully: '' @ page_url)), tr3)
                     else (Inr ''Failed to update existing test plan page'', tr3))))
                 else
                   (case create_new_confluence_page E s t b tr2 of
                      (response_data, tr3) \<Rightarrow>
                        if truthy response_data
                        then (and_then (extract_page_url E response_data) (\<lambda>page_url.
                                Inr (''Test plan page created successfully: '' @ page_url)), tr3)
                        else (Inr ''Failed to create new test plan page'', tr3)))"
            using assms Pair Inr False found page by (auto simp: create_test_plan_try_def)
          from reconcile_trace [where E = E and s = s and t = t and b = b and p = p and ?tr2.0 = tr2]
          consider "snd (create_test_plan_try E k s t b tr) = tr2"
            | "snd (create_test_plan_try E k s t b tr) = tr2 @ [create_request E s t b]"
            | pid v where "snd (create_test_plan_try E k s t b tr) = tr2 @ [update_request E pid s t b v]"
            unfolding body by blast
          then show ?thesis
          proof cases
            case 1
            then show ?thesis using tr1 tr2 by (simp add: plan_requests_def)
          next
            case 2
            then show ?thesis using tr1 tr2 by (simp add: plan_requests_def)
          next
            case 3
            then have "snd (create_test_plan_try E k s t b tr) =
                tr @ issue_request E k # [search_request E s t, update_request E pid s t b v]"
              using tr1 tr2 by simp
            moreover have "plan_requests E s t b [search_request E s t, update_request E pid s t b v]"
              unfolding plan_requests_def by blast
            ultimately show ?thesis by blast
          qed
        qed
      qed
    qed
  qed
qed

lemma try_except_snd: "snd (try_except r h) = snd r"
  by (cases r) (auto simp: try_except_def split: sum.splits)

lemma page_body_value_page_data: "page_body_value (page_data s t b) = Inr (JStr b)"
  by (simp add: page_body_value_def page_data_def)

lemma page_body_value_update_data: "page_body_value (update_data pid s t b v) = Inr (JStr b)"
  by (simp add: page_body_value_def update_data_def)

lemma page_version_number_update_data: "page_version_number (update_data pid s t b v) = Inr v"
  by (simp add: page_version_number_def update_data_def)

lemma request_methods:
  "req_method (issue_request E k) = GET" "req_method (search_request E s t) = GET"
  "req_method (create_request E s t b) = POST" "req_method (update_request E pid s t b v) = PUT"
  by (simp_all add: issue_request_def jira_request_def search_request_def create_request_def
      update_request_def confluence_request_def)

lemma request_payloads:
  "req_json (create_request E s t b) = Some (page_data s t b)"
  "req_json (update_request E pid s t b v) = Some (update_data pid s t b v)"
  by (simp_all add: create_request_def update_request_def confluence_request_def)

lemma plan_requests_body:
  assumes "plan_requests E s t b rest" and "rq \<in> set rest" and "req_method rq \<noteq> GET"
  shows "\<exists>p. req_json rq = Some p \<and> page_body_value p = Inr (JStr b)"
  using assms
  by (auto simp: plan_requests_def request_methods request_payloads page_body_value_page_data
      page_body_value_update_data)

text \<open>
  Claim C9. With all four arguments given, the first request of the test-plan tool is the
  fetch of the issue; after it come at most the search and one write, built from the
  arguments and from the page found by the search, and every write carries the test plan of
  the caller as its body. When the fetch of the issue fails, the tool returns the message
  \<open>Unable to fetch Jira ticket ... for validation.\<close> and has sent no other request.
\<close>

theorem issue_validated_before_wiki:
  assumes "k \<noteq> []" "s \<noteq> []" "t \<noteq> []" "b \<noteq> []"
  shows "(\<exists>rest. snd (create_test_plan_from_jira E k s t b tr) = tr @ issue_request E k # rest \<and>
            (rest = [] \<or> rest = [search_request E s t] \<or>
             rest = [search_request E s t, create_request E s t b] \<or>
             (\<exists>pid v. rest = [search_request E s t, update_request E pid s t b v])) \<and>
            (\<forall>rq \<in> set rest. req_method rq \<noteq> GET \<longrightarrow>
               (\<exists>p. req_json rq = Some p \<and> page_body_value p = Inr (JStr b)))) \<and>
         (\<not> truthy (json_of (http_send E tr (issue_request E k))) \<longrightarrow>
            create_test_plan_from_jira E k s t b tr
              = (Inr (''Unable to fetch Jira ticket '' @ k @ '' for validation.''),
                 tr @ [issue_request E k]))"
proof
  obtain rest where rest: "snd (create_test_plan_try E k s t b tr) = tr @ issue_request E k # rest"
    and shape: "plan_requests E s t b rest"
    using create_test_plan_try_trace [OF assms] by blast
  have "snd (create_test_plan_from_jira E k s t b tr) = tr @ issue_request E k # rest"
    using rest by (simp add: create_test_plan_from_jira_def try_except_snd)
  moreover have "rest = [] \<or> rest = [search_request E s t] \<or>
             rest = [search_request E s t, create_request E s t b] \<or>
             (\<exists>pid v. rest = [search_request E s t, update_request E pid s t b v])"
    using shape by (simp add: plan_requests_def)
  moreover have "\<forall>rq \<in> set rest. req_method rq \<noteq> GET \<longrightarrow>
               (\<exists>p. req_json rq = Some p \<and> page_body_value p = Inr (JStr b))"
    using plan_requests_body [OF shape] by blast
  ultimately show "\<exists>rest. snd (create_test_plan_from_jira E k s t b tr) = tr @ issue_request E k # rest \<and>
            (rest = [] \<or> rest = [search_request E s t] \<or>
             rest = [search_request E s t, create_request E s t b] \<or>
             (\<exists>pid v. rest = [search_request E s t, update_request E pid s t b v])) \<and>
            (\<forall>rq \<in> set rest. req_method rq \<noteq> GET \<longrightarrow>
               (\<exists>p. req_json rq = Some p \<and> page_body_value p = Inr (JStr b)))"
    by blast
next
  show "\<not> truthy (json_of (http_send E tr (issue_request E k))) \<longrightarrow>
            create_test_plan_from_jira E k s t b tr
              = (Inr (''Unable to fetch Jira ticket '' @ k @ '' for validation.''),
                 tr @ [issue_request E k])"
    using assms by (simp add: create_test_plan_from_jira_def create_test_plan_try_def fetch_issue_failed)
qed

text \<open>
  The theorem where the issue cannot be fetched, and where it can and a page is created.
\<close>

theorem issue_validated_before_wiki_witness:
  "''ABC-1'' \<noteq> [] \<and> ''SPACE'' \<noteq> [] \<and> ''Test Plan for ABC-1'' \<noteq> [] \<and> ''<p>Steps</p>'' \<noteq> [] \<and>
   \<not> truthy (json_of (http_send env_no_issue [] (issue_request env_no_issue ''ABC-1''))) \<and>
   create_test_plan_from_jira env_no_issue ''ABC-1'' ''SPACE'' ''Test Plan for ABC-1'' ''<p>Steps</p>'' []
     = (Inr ''Unable to fetch Jira ticket ABC-1 for validation.'',
        [] @ [issue_request env_no_issue ''ABC-1'']) \<and>
   snd (create_test_plan_from_jira env_no_page ''ABC-1'' ''SPACE'' ''Test Plan for ABC-1'' ''<p>Steps</p>'' [])
     = [] @ issue_request env_no_page ''ABC-1'' #
         [search_request env_no_page ''SPACE'' ''Test Plan for ABC-1'',
          create_request env_no_page ''SPACE'' ''Test Plan for ABC-1'' ''<p>Steps</p>''] \<and>
   req_method (create_request env_no_page ''SPACE'' ''Test Plan for ABC-1'' ''<p>Steps</p>'') \<noteq> GET \<and>
   (\<exists>p. req_json (create_request env_no_page ''SPACE'' ''Test Plan for ABC-1'' ''<p>Steps</p>'') = Some p \<and>
        page_body_value p = Inr (JStr ''<p>Steps</p>''))"
  using issue_validated_before_wiki
    [where E = env_no_issue and k = "''ABC-1''" and s = "''SPACE''"
       and t = "''Test Plan for ABC-1''" and b = "''<p>Steps</p>''" and tr = "[]"]
    issue_validated_before_wiki
    [where E = env_no_page and k = "''ABC-1''" and s = "''SPACE''"
       and t = "''Test Plan for ABC-1''" and b = "''<p>Steps</p>''" and tr = "[]"]
  by (simp add: env_no_issue_def env_no_page_def scripted_def demo_issue_def demo_search_empty_def
      demo_page_def create_test_plan_from_jira_def create_test_plan_try_def
      fetch_jira_issue_details_def make_jira_request_eq issue_request_def issue_record_dict
      issue_dict_def find_existing_confluence_page_def make_confluence_request_GET
      search_request_def create_page_eq create_request_def extract_page_url_def
      request_methods request_payloads page_body_value_page_data Let_def
      confluence_request_def)

subsection \<open>Create or update\<close>

text \<open>
  Claim C1. The reconciliation is the second half of \<^verbatim>\<open>create_test_plan_from_jira\<close>. With
  the arguments given and the issue fetched: when the search finds no page and the creation
  succeeds, the tool has sent the search and then exactly one \<open>POST\<close>, and returns the success
  message with the URL of the created page; when the search finds a page whose version is
  \<open>V\<close> and the update succeeds, it has sent the search and then exactly one \<open>PUT\<close> whose
  version number is \<open>V + 1\<close> and whose body is the new body, and returns the success message
  with the URL of the updated page.
\<close>

theorem create_or_update_reconciliation:
  assumes args: "k \<noteq> []" "s \<noteq> []" "t \<noteq> []" "b \<noteq> []"
    and issue: "http_send E tr (issue_request E k) = Json data" "usable_issue data"
    and links: "map_of rk ''_links'' = Some (JDict lk)" "map_of lk ''base'' = Some (JStr base)"
      "map_of lk ''webui'' = Some (JStr webui)"
  shows "(http_send E (tr @ [issue_request E k]) (search_request E s t) = Json sd \<and> no_results sd \<and>
          http_send E (tr @ [issue_request E k, search_request E s t]) (create_request E s t b)
            = Json (JDict rk) \<longrightarrow>
            create_test_plan_from_jira E k s t b tr
              = (Inr (''Test plan page created successfully: '' @ base @ webui),
                 tr @ [issue_request E k, search_request E s t, create_request E s t b])) \<and>
         (http_send E (tr @ [issue_request E k]) (search_request E s t) = Json (JDict sk) \<and>
          map_of sk ''results'' = Some (JList (JDict pk # ps)) \<and>
          map_of pk ''id'' = Some pid \<and> map_of pk ''version'' = Some (JDict vk) \<and>
          map_of vk ''number'' = Some (JInt V) \<and>
          http_send E (tr @ [issue_request E k, search_request E s t])
            (update_request E pid s t b (JInt (V + 1))) = Json (JDict rk) \<longrightarrow>
            create_test_plan_from_jira E k s t b tr
              = (Inr (''Test plan page updated successfully: '' @ base @ webui),
                 tr @ [issue_request E k, search_request E s t,
                       update_request E pid s t b (JInt (V + 1))]) \<and>
            req_json (update_request E pid s t b (JInt (V + 1)))
              = Some (update_data pid s t b (JInt (V + 1))) \<and>
            page_version_number (update_data pid s t b (JInt (V + 1))) = Inr (JInt (V + 1)) \<and>
            page_body_value (update_data pid s t b (JInt (V + 1))) = Inr (JStr b)) \<and>
         req_method (issue_request E k) = GET \<and> req_method (search_request E s t) = GET \<and>
         req_method (create_request E s t b) = POST \<and>
         req_method (update_request E pid s t b (JInt (V + 1))) = PUT"
proof -
  obtain f where f: "fetch_jira_issue_details E k tr = (Inr (Some (issue_dict E k f)), tr @ [issue_request E k])"
    using fetch_issue_usable [OF issue] by blast
  have nonempty: "issue_dict E k f \<noteq> []" by (simp add: issue_dict_def)
  have rk: "rk \<noteq> []" using links(1) by auto
  have url: "extract_page_url E (JDict rk) = Inr (base @ webui)"
    using links by (rule extract_page_url_links)
  have created: "create_test_plan_from_jira E k s t b tr
              = (Inr (''Test plan page created successfully: '' @ base @ webui),
                 tr @ [issue_request E k, search_request E s t, create_request E s t b])"
    if "http_send E (tr @ [issue_request E k]) (search_request E s t) = Json sd" "no_results sd"
       "http_send E (tr @ [issue_request E k, search_request E s t]) (create_request E s t b) = Json (JDict rk)"
  proof -
    have "find_existing_confluence_page E s t (tr @ [issue_request E k])
           = (Inr JNull, tr @ [issue_request E k, search_request E s t])"
      using find_page_no_results [OF that(1,2)] by simp
    then show ?thesis
      using args nonempty rk that(3)
      by (simp add: create_test_plan_from_jira_def create_test_plan_try_def f create_page_eq url)
  qed
  have updated: "create_test_plan_from_jira E k s t b tr
              = (Inr (''Test plan page updated successfully: '' @ base @ webui),
                 tr @ [issue_request E k, search_request E s t,
                       update_request E pid s t b (JInt (V + 1))])"
    if "http_send E (tr @ [issue_request E k]) (search_request E s t) = Json (JDict sk)"
       "map_of sk ''results'' = Some (JList (JDict pk # ps))"
       "map_of pk ''id'' = Some pid" "map_of pk ''version'' = Some (JDict vk)"
       "map_of vk ''number'' = Some (JInt V)"
       "http_send E (tr @ [issue_request E k, search_request E s t])
            (update_request E pid s t b (JInt (V + 1))) = Json (JDict rk)"
  proof -
    have "find_existing_confluence_page E s t (tr @ [issue_request E k])
           = (Inr (JDict pk), tr @ [issue_request E k, search_request E s t])"
      using find_page_first [OF that(1,2)] by simp
    moreover have "pk \<noteq> []" using that(3) by auto
    ultimately show ?thesis
      using args nonempty rk that(3-6)
      by (simp add: create_test_plan_from_jira_def create_test_plan_try_def f update_page_eq url)
  qed
  show ?thesis
    using created updated
    by (simp add: request_methods request_payloads page_version_number_update_data
        page_body_value_update_data)
qed

text \<open>
  The theorem on a space without the page, and on a space where the page exists at version 3.
\<close>

theorem create_or_update_reconciliation_witness:
  "''ABC-1'' \<noteq> [] \<and> ''SPACE'' \<noteq> [] \<and> ''Test Plan for ABC-1'' \<noteq> [] \<and> ''<p>Steps</p>'' \<noteq> [] \<and>
   http_send env_no_page [] (issue_request env_no_page ''ABC-1'') = Json demo_issue \<and>
   http_send env_page_exists [] (issue_request env_page_exists ''ABC-1'') = Json demo_issue \<and>
   usable_issue demo_issue \<and>
   http_send env_no_page ([] @ [issue_request env_no_page ''ABC-1''])
     (search_request env_no_page ''SPACE'' ''Test Plan for ABC-1'') = Json demo_search_empty \<and>
   no_results demo_search_empty \<and>
   http_send env_no_page
     ([] @ [issue_request env_no_page ''ABC-1'',
            search_request env_no_page ''SPACE'' ''Test Plan for ABC-1''])
     (create_request env_no_page ''SPACE'' ''Test Plan for ABC-1'' ''<p>Steps</p>'') = Json demo_page \<and>
   create_test_plan_from_jira env_no_page ''ABC-1'' ''SPACE'' ''Test Plan for ABC-1'' ''<p>Steps</p>'' []
     = (Inr (''Test plan page created successfully: '' @
             ''https://onedatascan.atlassian.net/wiki'' @ ''/spaces/SPACE/pages/98765''),
        [] @ [issue_request env_no_page ''ABC-1'',
              search_request env_no_page ''SPACE'' ''Test Plan for ABC-1'',
              create_request env_no_page ''SPACE'' ''Test Plan for ABC-1'' ''<p>Steps</p>'']) \<and>
   http_send env_page_exists ([] @ [issue_request env_page_exists ''ABC-1''])
     (search_request env_page_exists ''SPACE'' ''Test Plan for ABC-1'') = Json demo_search_found \<and>
   http_send env_page_exists
     ([] @ [issue_request env_page_exists ''ABC-1'',
            search_request env_page_exists ''SPACE'' ''Test Plan for ABC-1''])
     (update_request env_page_exists (JStr ''98765'') ''SPACE'' ''Test Plan for ABC-1'' ''<p>Steps</p>''
        (JInt (3 + 1))) = Json demo_page \<and>
   create_test_plan_from_jira env_page_exists ''ABC-1'' ''SPACE'' ''Test Plan for ABC-1'' ''<p>Steps</p>'' []
     = (Inr (''Test plan page updated successfully: '' @
             ''https://onedatascan.atlassian.net/wiki'' @ ''/spaces/SPACE/pages/98765''),
        [] @ [issue_request env_page_exists ''ABC-1'',
              search_request env_page_exists ''SPACE'' ''Test Plan for ABC-1'',
              update_request env_page_exists (JStr ''98765'') ''SPACE'' ''Test Plan for ABC-1''
                ''<p>Steps</p>'' (JInt (3 + 1))]) \<and>
   page_version_number (update_data (JStr ''98765'') ''SPACE'' ''Test Plan for ABC-1'' ''<p>Steps</p>''
      (JInt (3 + 1))) = Inr (JInt 4)"
  using create_or_update_reconciliation
    [where E = env_no_page and k = "''ABC-1''" and s = "''SPACE''"
       and t = "''Test Plan for ABC-1''" and b = "''<p>Steps</p>''" and tr = "[]"
       and data = demo_issue and sd = demo_search_empty
       and rk = "[(''id'', JStr ''98765''),
            (''_links'', JDict [(''base'', JStr ''https://onedatascan.atlassian.net/wiki''),
                                (''webui'', JStr ''/spaces/SPACE/pages/98765'')])]"
       and lk = "[(''base'', JStr ''https://onedatascan.atlassian.net/wiki''),
                                (''webui'', JStr ''/spaces/SPACE/pages/98765'')]"
       and base = "''https://onedatascan.atlassian.net/wiki''"
       and webui = "''/spaces/SPACE/pages/98765''"]
    create_or_update_reconciliation
    [where E = env_page_exists and k = "''ABC-1''" and s = "''SPACE''"
       and t = "''Test Plan for ABC-1''" and b = "''<p>Steps</p>''" and tr = "[]"
       and data = demo_issue
       and sk = "[(''results'', JList [JDict [(''id'', JStr ''98765''),
                                        (''version'', JDict [(''number'', JInt 3)])]]),
            (''size'', JInt 1)]"
       and pk = "[(''id'', JStr ''98765''), (''version'', JDict [(''number'', JInt 3)])]"
       and ps = "[]" and pid = "JStr ''98765''" and vk = "[(''number'', JInt 3)]" and V = 3
       and rk = "[(''id'', JStr ''98765''),
            (''_links'', JDict [(''base'', JStr ''https://onedatascan.atlassian.net/wiki''),
                                (''webui'', JStr ''/spaces/SPACE/pages/98765'')])]"
       and lk = "[(''base'', JStr ''https://onedatascan.atlassian.net/wiki''),
                                (''webui'', JStr ''/spaces/SPACE/pages/98765'')]"
       and base = "''https://onedatascan.atlassian.net/wiki''"
       and webui = "''/spaces/SPACE/pages/98765''"]
  by (simp add: env_no_page_def env_page_exists_def scripted_def demo_issue_def
      demo_search_empty_def demo_search_found_def demo_page_def is_dict_def)

section \<open>Properties of the issue report and of the tools\<close>

subsection \<open>Subtasks\<close>



lemma subtask_record_dict:
  "subtask_record E key (JDict f) =
     Inr [(''key'', key),
          (''summary'', dict_get f ''summary'' (JStr ''No summary'')),
          (''status'', extract_jira_field_value E (dict_get f ''status'' JNull) ''name''),
          (''reporter'', extract_jira_field_value E (dict_get f ''reporter'' JNull) ''displayName''),
          (''description'', JStr (description_of (dict_get f ''description'' JNull)))]"
  by (simp add: subtask_record_def dict_get_def extract_description_of)

lemma subtask_record_Inr: "subtask_record E key sf = Inr d \<Longrightarrow> \<exists>f. sf = JDict f"
  by (cases sf) (simp_all add: subtask_record_def)

text \<open>The three shapes of a record that \<open>fetch_subtask_details\<close> returns.\<close>

lemma fetch_subtask_shapes:
  assumes "fetch_subtask_details E r tr = (Inr d, tr')"
  shows "d = [(''error'', JStr ''No subtask key found'')] \<or>
         (\<exists>key. d = [(''key'', key), (''error'', JStr ''Unable to fetch subtask details'')]) \<or>
         (\<exists>key su st rp ds. d = [(''key'', key), (''summary'', su), (''status'', st),
                                  (''reporter'', rp), (''description'', ds)])"
proof -
  obtain key where key: "py_get r ''key'' JNull = Inr key"
    using assms by (cases "py_get r ''key'' JNull") (simp_all add: fetch_subtask_details_def)
  show ?thesis
  proof (cases "truthy key")
    case False
    then show ?thesis using assms key by (simp add: fetch_subtask_details_def)
  next
    case True
    let ?data = "json_of (http_send E tr (jira_request E (''/rest/api/3/issue/'' @ py_str E key)))"
    show ?thesis
    proof (cases "truthy ?data")
      case False
      then show ?thesis using assms key True
        by (auto simp: fetch_subtask_details_def make_jira_request_eq)
    next
      case data: True
      then have run: "and_then (py_get ?data ''fields'' (JDict [])) (subtask_record E key) = Inr d"
        using assms key True by (simp add: fetch_subtask_details_def make_jira_request_eq)
      then obtain sf where "subtask_record E key sf = Inr d"
        by (auto simp: and_then_eq_Inr)
      then obtain f where "subtask_record E key (JDict f) = Inr d"
        using subtask_record_Inr by blast
      then show ?thesis by (auto simp: subtask_record_dict)
    qed
  qed
qed

lemma fetch_subtask_nonempty: "fetch_subtask_details E r tr = (Inr d, tr') \<Longrightarrow> d \<noteq> []"
  by (drule fetch_subtask_shapes) auto

lemma subtask_section_error [simp]:
  "subtask_section E [(''key'', key), (''error'', JStr msg)] =
     Inr (nl @ ''  - '' @ py_str E key @ '': '' @ msg @ nl)"
  by (simp add: subtask_section_def dict_getitem_def dict_get_def)









subsection \<open>The report\<close>




lemma description_of_JNull [simp]: "description_of JNull = ''No description available''"
  by (simp add: description_of_def extract_description_from_jira_def)

subsection \<open>Subtasks that are answered well\<close>









subsection \<open>Argument checks and exceptions of the tools\<close>

lemma create_confluence_page_guarded:
  "(s = [] \<or> t = [] \<or> b = [] \<longrightarrow>
      create_confluence_page E s t b tr
        = (Inr ''Error: space_key, title, and body are all required'', tr)) \<and>
   (\<exists>m. fst (create_confluence_page E s t b tr) = Inr m)"
  by (auto simp: create_confluence_page_def try_except_def split: sum.splits prod.splits)

lemma create_test_plan_guarded:
  "(k = [] \<or> s = [] \<or> t = [] \<or> b = [] \<longrightarrow>
      create_test_plan_from_jira E k s t b tr
        = (Inr ''Error: All parameters (issue_key, confluence_space_key, confluence_title, test_plan) are required'', tr)) \<and>
   (\<exists>m. fst (create_test_plan_from_jira E k s t b tr) = Inr m)"
  by (auto simp: create_test_plan_from_jira_def create_test_plan_try_def try_except_def
      split: sum.splits prod.splits)

text \<open>
  Claim C2 at \<^verbatim>\<open>get_jira_ticket\<close>. With an empty issue key the tool sends a request to the
  tracker instead of rejecting the argument; and when the tracker answers with an issue whose
  \<open>fields\<close> is \<^verbatim>\<open>null\<close>, the \<^verbatim>\<open>AttributeError\<close> leaves the tool. The two other tools
  check their arguments first and turn every exception into a message, as
  \<open>create_confluence_page_guarded\<close> and \<open>create_test_plan_guarded\<close> state.
\<close>

theorem get_jira_ticket_unguarded:
  "get_jira_ticket env_no_issue '''' []
     = (Inr ''Unable to fetch Jira ticket .'', [issue_request env_no_issue '''']) \<and>
   get_jira_ticket env_null_fields ''ABC-1'' []
     = (Inl AttributeError, [issue_request env_null_fields ''ABC-1''])"
  by (simp add: get_jira_ticket_def fetch_jira_issue_details_def make_jira_request_eq
      issue_request_def env_no_issue_def env_null_fields_def scripted_def issue_record_def)

end
